theory Spec2Isabelle
  imports Complex_Main "HOL-Library.Word"
begin

section \<open>The eRPC endpoint class \<open>Rpc\<close> of \<open>src/src/rpc.h\<close>\<close>

text \<open>
  The functions below are the inline member functions of \<open>Rpc\<close> (a class template over
  the transport \<open>TTr\<close>), translated one by one. \<open>size_t\<close> is a 64-bit unsigned integer
  whose arithmetic wraps around. The compile-time constants that \<open>rpc.h\<close> reads from other
  headers (\<open>TTr::kMaxDataPerPkt\<close>, \<open>sizeof(pkthdr_t)\<close>, \<open>kSessionCredits\<close>, \<open>kCcPacing\<close>,
  \<open>kTesting\<close>, \<open>kCcOptWheelBypass\<close>, \<open>kPktNumBits\<close>, \<open>kMsgSizeBits\<close>,
  \<open>HugeAlloc::kMaxClassSize\<close>) are not declared in \<open>rpc.h\<close>; every function takes the
  constants it reads as its first arguments, under the constant's own name. An \<open>assert\<close>
  that fails, a C++ exception, and the use of a pointer or an index that refers to no
  object, are results of type \<open>error\<close>.
\<close>

type_synonym size_t = "64 word"

datatype error = AssertFail | RuntimeError | BadPointer

text \<open>A pointer is null or an address; pointer arithmetic on an address never gives null.\<close>

datatype ptr = nullptr | Addr nat

fun ptr_add :: "ptr \<Rightarrow> size_t \<Rightarrow> ptr" where
  "ptr_add nullptr n = nullptr"
| "ptr_add (Addr a) n = Addr (a + unat n)"

subsection \<open>MsgBuffer management\<close>

text \<open>\<open>Buffer\<close> (util/buffer.h): what the hugepage allocator hands out.\<close>

record Buffer =
  Buffer_buf :: ptr
  class_size :: size_t

text \<open>
  Modelled from the spec: the class \<open>MsgBuffer\<close> (msg_buffer.h is not among the sources).
  The spec gives it a payload pointer, a maximum data size, a current data size and a
  packet count; \<open>rpc.h\<close> also reads its backing \<open>buffer\<close>. The packet headers live in the
  backing memory; the one field of it that \<open>rpc.h\<close> documents, the magic field of the
  zeroth header, is kept here as \<open>pkthdr_0_magic\<close>.
\<close>

record MsgBuffer =
  buffer :: Buffer
  max_data_size :: size_t
  data_size :: size_t
  num_pkts :: size_t
  buf :: ptr
  pkthdr_0_magic :: size_t

text \<open>
  Modelled from the spec: the constructor \<open>MsgBuffer(buffer, max_data_size, max_num_pkts)\<close>.
  The payload starts behind the zeroth packet header, and the constructor "sets the magic
  field in the zeroth header" (doc comment of \<open>alloc_msg_buffer\<close>).
\<close>

definition MsgBuffer_ctor :: "size_t \<Rightarrow> size_t \<Rightarrow> Buffer \<Rightarrow> size_t \<Rightarrow> size_t \<Rightarrow> MsgBuffer" where
  "MsgBuffer_ctor sizeof_pkthdr_t kPktHdrMagic b max_data_sz max_num_pkts =
     \<lparr>buffer = b, max_data_size = max_data_sz, data_size = max_data_sz,
      num_pkts = max_num_pkts, buf = ptr_add (Buffer_buf b) sizeof_pkthdr_t,
      pkthdr_0_magic = kPktHdrMagic\<rparr>"

text \<open>
  The default-constructed \<open>MsgBuffer msg_buffer;\<close> of the out-of-memory branch. C++ leaves
  its fields indeterminate; the branch then sets \<open>buf\<close> to null, the only field read later.
\<close>

definition MsgBuffer_default :: MsgBuffer where
  "MsgBuffer_default =
     \<lparr>buffer = \<lparr>Buffer_buf = nullptr, class_size = 0\<rparr>, max_data_size = 0, data_size = 0,
      num_pkts = 0, buf = nullptr, pkthdr_0_magic = 0\<rparr>"

text \<open>
  Modelled from the spec: \<open>MsgBuffer::is_valid\<close>; an invalid MsgBuffer is the one whose
  payload pointer is null (spec section 7; doc comment of \<open>alloc_msg_buffer\<close>).
\<close>

definition is_valid :: "MsgBuffer \<Rightarrow> bool" where
  "is_valid m = (buf m \<noteq> nullptr)"

text \<open>
  Modelled from the spec: \<open>MsgBuffer::resize(new_data_size, new_num_pkts)\<close>, which stores
  the two values "without touching headers".
\<close>

definition MsgBuffer_resize :: "MsgBuffer \<Rightarrow> size_t \<Rightarrow> size_t \<Rightarrow> MsgBuffer" where
  "MsgBuffer_resize m new_data_size new_num_pkts =
     m\<lparr>data_size := new_data_size, num_pkts := new_num_pkts\<rparr>"

text \<open>
  \<open>data_size_to_num_pkts\<close> (rpc.h, 754-757). The addition and the subtraction are
  \<open>size_t\<close> operations and wrap.
\<close>

definition data_size_to_num_pkts :: "size_t \<Rightarrow> size_t \<Rightarrow> size_t" where
  "data_size_to_num_pkts kMaxDataPerPkt dsize =
     (if dsize \<le> kMaxDataPerPkt then 1
      else (dsize + kMaxDataPerPkt - 1) div kMaxDataPerPkt)"

text \<open>
  The packet count in the spec's words: the ceiling of \<open>data_size / MaxDataPerPkt\<close>, with
  a floor of 1. This definition follows the spec, not the code.
\<close>

definition num_pkts_spec :: "nat \<Rightarrow> nat \<Rightarrow> nat" where
  "num_pkts_spec max_data_per_pkt dsize = max 1 (nat \<lceil>real dsize / real max_data_per_pkt\<rceil>)"

text \<open>
  \<open>alloc_msg_buffer\<close> (rpc.h, 89-108). \<open>huge_alloc->alloc\<close> is not among the sources: it
  is the argument \<open>alloc\<close>, a function of the allocator's state \<open>h\<close> and the size asked for,
  which throws (\<open>Inl RuntimeError\<close>), or returns a \<open>Buffer\<close> (with a null \<open>buf\<close> when
  memory has run out) and the allocator's new state. \<open>lock_cond\<close> and \<open>unlock_cond\<close> do
  not change what is computed and are left out.
\<close>

definition alloc_msg_buffer ::
  "size_t \<Rightarrow> size_t \<Rightarrow> size_t \<Rightarrow> ('h \<Rightarrow> size_t \<Rightarrow> error + Buffer \<times> 'h) \<Rightarrow> 'h \<Rightarrow> size_t
     \<Rightarrow> error + MsgBuffer \<times> 'h" where
  "alloc_msg_buffer kMaxDataPerPkt sizeof_pkthdr_t kPktHdrMagic alloc h max_data_sz =
     (if \<not> 0 < max_data_sz then Inl AssertFail
      else
        let max_num_pkts = data_size_to_num_pkts kMaxDataPerPkt max_data_sz in
        case alloc h (max_data_sz + max_num_pkts * sizeof_pkthdr_t) of
          Inl e \<Rightarrow> Inl e
        | Inr (b, h') \<Rightarrow>
            if Buffer_buf b = nullptr then Inr (MsgBuffer_default\<lparr>buf := nullptr\<rparr>, h')
            else Inr (MsgBuffer_ctor sizeof_pkthdr_t kPktHdrMagic b max_data_sz max_num_pkts, h'))"

text \<open>\<open>resize_msg_buffer\<close> (rpc.h, 119-127).\<close>

definition resize_msg_buffer :: "size_t \<Rightarrow> MsgBuffer \<Rightarrow> size_t \<Rightarrow> error + MsgBuffer" where
  "resize_msg_buffer kMaxDataPerPkt msg_buffer new_data_size =
     (if \<not> is_valid msg_buffer then Inl AssertFail
      else if \<not> new_data_size \<le> max_data_size msg_buffer then Inl AssertFail
      else
        let new_num_pkts = data_size_to_num_pkts kMaxDataPerPkt new_data_size in
        Inr (MsgBuffer_resize msg_buffer new_data_size new_num_pkts))"

subsection \<open>Concrete inputs for the MsgBuffer functions\<close>

text \<open>
  An allocator that always succeeds and notes the size it was asked for in the
  \<open>class_size\<close> of the \<open>Buffer\<close> it returns, and a four-packet MsgBuffer it could have
  backed.
\<close>

definition alloc_ok :: "unit \<Rightarrow> size_t \<Rightarrow> error + Buffer \<times> unit" where
  "alloc_ok h n = Inr (\<lparr>Buffer_buf = Addr 4096, class_size = n\<rparr>, h)"

text \<open>An allocator that has run out of memory: it returns a \<open>Buffer\<close> whose \<open>buf\<close> is null.\<close>

definition alloc_oom :: "unit \<Rightarrow> size_t \<Rightarrow> error + Buffer \<times> unit" where
  "alloc_oom h n = Inr (\<lparr>Buffer_buf = nullptr, class_size = 0\<rparr>, h)"

definition msgbuf_4000 :: MsgBuffer where
  "msgbuf_4000 = MsgBuffer_ctor 16 11 \<lparr>Buffer_buf = Addr 4096, class_size = 4064\<rparr> 4000 4"

subsection \<open>Packet headers, session slots and sessions\<close>

text \<open>
  Modelled from the spec: the packet header \<open>pkthdr_t\<close> (pkthdr.h is not among the
  sources), with the fields of the spec's wire format. The bit-fields \<open>pkt_num\<close> and
  \<open>req_num\<close> are compared with \<open>size_t\<close> counters in \<open>rpc.h\<close> and are held as \<open>size_t\<close>.
\<close>

datatype PktType = kPktTypeReq | kPktTypeResp | kPktTypeExplCR | kPktTypeRFR

record pkthdr_t =
  req_type :: "8 word"
  msg_size :: size_t
  dest_session_num :: "16 word"
  pkt_type :: PktType
  pkt_num :: size_t
  req_num :: size_t
  magic :: size_t

text \<open>
  Modelled from the spec: the session slot \<open>SSlot\<close> (sslot.h is not among the sources), with
  the client fields of the spec's data model. The members of \<open>sslot->client_info\<close> are the
  fields from \<open>resp_msgbuf\<close> on. A pointer to a MsgBuffer is an \<open>option\<close> (\<open>None\<close> is null);
  \<open>session\<close> is the pointer to the owning session, held as that session's number in the
  endpoint's \<open>session_vec\<close>. The arrays \<open>tx_ts\<close> and \<open>in_wheel\<close> have \<open>kSessionCredits\<close>
  entries.
\<close>

record SSlot =
  index :: size_t
  cur_req_num :: size_t
  tx_msgbuf :: "MsgBuffer option"
  session :: "nat option"
  resp_msgbuf :: "MsgBuffer option"
  cont_func :: nat
  tag :: size_t
  cont_etid :: size_t
  num_tx :: size_t
  num_rx :: size_t
  tx_ts :: "size_t list"
  in_wheel :: "bool list"
  wheel_count :: size_t

text \<open>The arguments of one \<open>enqueue_request\<close> call, as the session's backlog keeps them.\<close>

record enq_req_args_t =
  a_session_num :: int
  a_req_type :: "8 word"
  a_req_msgbuf :: "MsgBuffer option"
  a_resp_msgbuf :: "MsgBuffer option"
  a_cont_func :: nat
  a_tag :: size_t
  a_cont_etid :: size_t

text \<open>
  Modelled from the spec: the class \<open>Session\<close> (session.h is not among the sources): role,
  state, the array of session slots, and the client fields \<open>credits\<close>, \<open>sslot_free_vec\<close>
  (the free-slot index stack: \<open>push_back\<close> appends, the top is the last element),
  \<open>enq_req_backlog\<close> (a queue: \<open>front\<close> is the head, \<open>pop\<close> removes it, \<open>push\<close> appends)
  and \<open>num_re_tx\<close> of \<open>session->client_info\<close>.
\<close>

datatype Role = kServer | kClient

datatype SessionState =
  kConnectInProgress | kConnected | kDisconnectInProgress | kResetInProgress

record Session =
  role :: Role
  state :: SessionState
  sslot_arr :: "SSlot list"
  credits :: size_t
  sslot_free_vec :: "size_t list"
  enq_req_backlog :: "enq_req_args_t list"
  num_re_tx :: size_t

definition is_client :: "Session \<Rightarrow> bool" where
  "is_client s = (role s = kClient)"

definition is_connected :: "Session \<Rightarrow> bool" where
  "is_connected s = (state s = kConnected)"

text \<open>The public counters \<open>pkt_loss_stats\<close> and the fault-injection switches \<open>faults\<close> of \<open>Rpc\<close>
  (the \<open>double\<close> \<open>pkt_drop_prob\<close> is left out: no function here reads it).\<close>

record pkt_loss_stats_t =
  stat_num_re_tx :: size_t
  still_in_wheel_during_retx :: size_t

record faults_t =
  fail_resolve_rinfo :: bool
  hard_wheel_bypass :: bool
  pkt_drop_thresh_billion :: "32 word"

subsection \<open>Datapath helpers\<close>

text \<open>\<open>resp_ntoi\<close> (rpc.h, 334-336) and \<open>wire_pkts\<close> (rpc.h, 362-365), in \<open>size_t\<close>.\<close>

definition resp_ntoi :: "size_t \<Rightarrow> size_t \<Rightarrow> size_t" where
  "resp_ntoi pktnum num_req_pkts = pktnum - (num_req_pkts - 1)"

definition wire_pkts :: "MsgBuffer \<Rightarrow> MsgBuffer \<Rightarrow> size_t" where
  "wire_pkts req_msgbuf rsp_msgbuf = num_pkts req_msgbuf + num_pkts rsp_msgbuf - 1"

text \<open>
  \<open>in_order_client\<close> (rpc.h, 340-358). Its return type is \<open>size_t\<close>: \<open>return true\<close> is 1 and
  \<open>return false\<close> is 0. It may increment \<open>pkt_loss_stats.still_in_wheel_during_retx\<close>, so
  the counters are passed in and returned.
\<close>

definition in_order_client ::
  "bool \<Rightarrow> size_t \<Rightarrow> pkt_loss_stats_t \<Rightarrow> SSlot \<Rightarrow> pkthdr_t \<Rightarrow> size_t \<times> pkt_loss_stats_t" where
  "in_order_client kCcPacing kSessionCredits pkt_loss_stats sslot pkthdr =
     (if req_num pkthdr \<noteq> cur_req_num sslot then (0, pkt_loss_stats)
      else if pkt_num pkthdr \<noteq> num_rx sslot then (0, pkt_loss_stats)
      else if pkt_num pkthdr \<ge> num_tx sslot then (0, pkt_loss_stats)
      else if kCcPacing \<and> in_wheel sslot ! unat (pkt_num pkthdr mod kSessionCredits) then
        (0, pkt_loss_stats\<lparr>still_in_wheel_during_retx :=
              still_in_wheel_during_retx pkt_loss_stats + 1\<rparr>)
      else (1, pkt_loss_stats))"

text \<open>\<open>req_pkts_pending\<close> (rpc.h, 368-370); a null \<open>tx_msgbuf\<close> cannot be read.\<close>

definition req_pkts_pending :: "SSlot \<Rightarrow> bool option" where
  "req_pkts_pending sslot =
     (case tx_msgbuf sslot of None \<Rightarrow> None | Some m \<Rightarrow> Some (num_tx sslot < num_pkts m))"

text \<open>
  \<open>can_bypass_wheel\<close> (rpc.h, 373-381). \<open>sess\<close> is the session \<open>sslot->session\<close> points to.
  \<open>Session::is_uncongested\<close> is not among the sources and is the argument \<open>is_uncongested\<close>.
\<close>

definition can_bypass_wheel ::
  "bool \<Rightarrow> bool \<Rightarrow> bool \<Rightarrow> faults_t \<Rightarrow> (Session \<Rightarrow> bool) \<Rightarrow> Session \<Rightarrow> SSlot \<Rightarrow> bool" where
  "can_bypass_wheel kCcPacing kTesting kCcOptWheelBypass faults is_uncongested sess sslot =
     (if \<not> kCcPacing then True
      else if kTesting then hard_wheel_bypass faults
      else if kCcOptWheelBypass then wheel_count sslot = 0 \<and> is_uncongested sess
      else False)"

text \<open>\<open>bump_credits\<close> (rpc.h, 643-647).\<close>

definition bump_credits :: "size_t \<Rightarrow> Session \<Rightarrow> error + Session" where
  "bump_credits kSessionCredits sess =
     (if \<not> is_client sess then Inl AssertFail
      else if \<not> credits sess < kSessionCredits then Inl AssertFail
      else Inr (sess\<lparr>credits := credits sess + 1\<rparr>))"

subsection \<open>Concrete inputs for the datapath helpers\<close>

definition sslot_0 :: SSlot where
  "sslot_0 =
     \<lparr>index = 0, cur_req_num = 8, tx_msgbuf = Some msgbuf_4000, session = Some 0,
      resp_msgbuf = None, cont_func = 0, tag = 0, cont_etid = 0, num_tx = 2, num_rx = 1,
      tx_ts = replicate 8 0,
      in_wheel = [False, True, False, False, False, False, False, False],
      wheel_count = 1\<rparr>"

definition pkthdr_1 :: pkthdr_t where
  "pkthdr_1 =
     \<lparr>req_type = 1, msg_size = 4000, dest_session_num = 0, pkt_type = kPktTypeExplCR,
      pkt_num = 1, req_num = 8, magic = 11\<rparr>"

definition stats_0 :: pkt_loss_stats_t where
  "stats_0 = \<lparr>stat_num_re_tx = 0, still_in_wheel_during_retx = 0\<rparr>"

definition session_0 :: Session where
  "session_0 =
     \<lparr>role = kClient, state = kConnected, sslot_arr = [sslot_0], credits = 7,
      sslot_free_vec = [], enq_req_backlog = [], num_re_tx = 0\<rparr>"

definition faults_hard :: faults_t where
  "faults_hard =
     \<lparr>fail_resolve_rinfo = False, hard_wheel_bypass = True, pkt_drop_thresh_billion = 0\<rparr>"

definition sslot_idle :: SSlot where
  "sslot_idle = sslot_0\<lparr>in_wheel := replicate 8 False, wheel_count := 0\<rparr>"

definition faults_none :: faults_t where
  "faults_none =
     \<lparr>fail_resolve_rinfo = False, hard_wheel_bypass = False, pkt_drop_thresh_billion = 0\<rparr>"

definition always_uncongested :: "Session \<Rightarrow> bool" where
  "always_uncongested s = True"

definition never_uncongested :: "Session \<Rightarrow> bool" where
  "never_uncongested s = False"

subsection \<open>Compile-time constants of \<open>Rpc\<close>\<close>

text \<open>
  \<open>kMaxMsgSize\<close> (rpc.h, 40-42), a \<open>size_t\<close> constant expression, and the two
  \<open>static_assert\<close>s on it (rpc.h, 43-46). The constants they read are arguments. A
  constant expression that shifts \<open>1ull\<close> by 64 or more, or divides by zero, does not
  compile, so the assertions count as passed only for shift counts below 64 and a
  \<open>kMaxDataPerPkt\<close> other than 0. The products and the difference are unsigned 64-bit
  operations: they wrap without an error.
\<close>

definition kMaxMsgSize :: "size_t \<Rightarrow> size_t \<Rightarrow> size_t \<Rightarrow> size_t" where
  "kMaxMsgSize kMaxClassSize kMaxDataPerPkt sizeof_pkthdr_t =
     kMaxClassSize - (kMaxClassSize div kMaxDataPerPkt) * sizeof_pkthdr_t"

definition static_asserts :: "nat \<Rightarrow> nat \<Rightarrow> size_t \<Rightarrow> size_t \<Rightarrow> size_t \<Rightarrow> bool" where
  "static_asserts kMsgSizeBits kPktNumBits kMaxClassSize kMaxDataPerPkt sizeof_pkthdr_t =
     (kMsgSizeBits < 64 \<and> kPktNumBits < 64 \<and> kMaxDataPerPkt \<noteq> 0
      \<and> push_bit kMsgSizeBits (1 :: size_t)
            \<ge> kMaxMsgSize kMaxClassSize kMaxDataPerPkt sizeof_pkthdr_t
      \<and> push_bit kPktNumBits (1 :: size_t) * kMaxDataPerPkt
            > 2 * kMaxMsgSize kMaxClassSize kMaxDataPerPkt sizeof_pkthdr_t)"

text \<open>
  The value of the header's \<open>pkt_num\<close> bit-field for a packet number: its low
  \<open>kPktNumBits\<close> bits.
\<close>

definition pkt_num_field :: "nat \<Rightarrow> size_t \<Rightarrow> size_t" where
  "pkt_num_field kPktNumBits pktnum = take_bit kPktNumBits pktnum"

subsection \<open>The endpoint's sessions, and releasing a response\<close>

text \<open>
  The part of the \<open>Rpc\<close> object that \<open>release_response\<close> and \<open>enqueue_request\<close> work on:
  \<open>session_vec\<close> (a null entry is \<open>None\<close>), the list of active RPCs (the session slots
  linked between the two sentinels, from the root to the tail) and the queue
  \<open>bg_queues.release_response\<close>. A pointer to a session slot names the slot by its
  session's number and its place in that session's \<open>sslot_arr\<close>.
\<close>

type_synonym sslot_ptr = "nat \<times> nat"

record Rpc =
  session_vec :: "Session option list"
  active_rpcs :: "sslot_ptr list"
  bg_queues_release_response :: "sslot_ptr list"

definition get_session :: "Rpc \<Rightarrow> nat \<Rightarrow> Session option" where
  "get_session r sn = (if sn < length (session_vec r) then session_vec r ! sn else None)"

definition put_session :: "Rpc \<Rightarrow> nat \<Rightarrow> Session \<Rightarrow> Rpc" where
  "put_session r sn s = r\<lparr>session_vec := (session_vec r)[sn := Some s]\<rparr>"

definition get_sslot :: "Rpc \<Rightarrow> sslot_ptr \<Rightarrow> SSlot option" where
  "get_sslot r p =
     (case get_session r (fst p) of
        None \<Rightarrow> None
      | Some s \<Rightarrow> if snd p < length (sslot_arr s) then Some (sslot_arr s ! snd p) else None)"

text \<open>\<open>is_usr_session_num_in_range_st\<close> (rpc.h, 823-827); \<open>session_num\<close> is an \<open>int\<close>.\<close>

definition is_usr_session_num_in_range_st :: "Rpc \<Rightarrow> int \<Rightarrow> bool" where
  "is_usr_session_num_in_range_st r session_num =
     (session_num \<ge> 0 \<and> nat session_num < length (session_vec r))"

text \<open>
  \<open>add_to_active_rpc_list\<close> (rpc.h, 391-399) links the slot in front of the tail sentinel:
  it becomes the last slot of the list.
\<close>

definition add_to_active_rpc_list :: "Rpc \<Rightarrow> sslot_ptr \<Rightarrow> Rpc" where
  "add_to_active_rpc_list r p = r\<lparr>active_rpcs := active_rpcs r @ [p]\<rparr>"

text \<open>
  Modelled from the spec: \<open>enqueue_request\<close> (rpc_req.cc is not among the sources), as
  section 4.4 of the spec describes it for a call in the dispatch thread: "require the
  session be Connected and a free sslot exist; if no free sslot, push args to the
  session's backlog and return. Otherwise pop a free sslot, assign \<open>cur_req_num += K\<close>,
  initialize \<open>num_tx = num_rx = 0\<close>, thread the sslot into the active-RPC list, write
  headers into the request buffer's packet slots, and kick transmission." A session
  number out of range, a null session and a session that is not a connected client
  session are programming errors (spec section 7). Writing the headers and kicking the
  transmission (rpc_kick.cc) act on the packet buffers, the credits and the TX batch, which
  this record does not hold; they are not modelled.
\<close>

definition enqueue_request :: "size_t \<Rightarrow> Rpc \<Rightarrow> enq_req_args_t \<Rightarrow> error + Rpc" where
  "enqueue_request kSessionCredits r args =
     (if \<not> is_usr_session_num_in_range_st r (a_session_num args) then Inl AssertFail
      else
        let sn = nat (a_session_num args) in
        case get_session r sn of
          None \<Rightarrow> Inl AssertFail
        | Some sess \<Rightarrow>
            if \<not> (is_client sess \<and> is_connected sess) then Inl AssertFail
            else if sslot_free_vec sess = [] then
              Inr (put_session r sn (sess\<lparr>enq_req_backlog := enq_req_backlog sess @ [args]\<rparr>))
            else
              let sslot_i = unat (last (sslot_free_vec sess)) in
              if \<not> sslot_i < length (sslot_arr sess) then Inl BadPointer
              else
                let sslot = (sslot_arr sess ! sslot_i)
                      \<lparr>cur_req_num := cur_req_num (sslot_arr sess ! sslot_i) + kSessionCredits,
                       tx_msgbuf := a_req_msgbuf args,
                       resp_msgbuf := a_resp_msgbuf args,
                       cont_func := a_cont_func args,
                       tag := a_tag args,
                       cont_etid := a_cont_etid args,
                       num_tx := 0, num_rx := 0\<rparr>;
                    sess' = sess\<lparr>sslot_free_vec := butlast (sslot_free_vec sess),
                                 sslot_arr := (sslot_arr sess)[sslot_i := sslot]\<rparr>
                in Inr (add_to_active_rpc_list (put_session r sn sess') (sn, sslot_i)))"

text \<open>
  \<open>release_response\<close> (rpc.h, 461-485). \<open>in_dispatch\<close> says whether the caller runs in the
  endpoint's creator thread; \<open>resp_handle\<close> points to a session slot. \<open>args\<close> is a
  reference to the front of the backlog, read before \<open>enqueue_request\<close> runs; the queue's
  \<open>pop\<close> runs after it, on the session as \<open>enqueue_request\<close> left it.
\<close>

definition release_response :: "size_t \<Rightarrow> bool \<Rightarrow> Rpc \<Rightarrow> sslot_ptr \<Rightarrow> error + Rpc" where
  "release_response kSessionCredits in_dispatch r resp_handle =
     (if \<not> in_dispatch then
        Inr (r\<lparr>bg_queues_release_response := bg_queues_release_response r @ [resp_handle]\<rparr>)
      else
        case get_sslot r resp_handle of
          None \<Rightarrow> Inl BadPointer
        | Some sslot \<Rightarrow>
            if tx_msgbuf sslot \<noteq> None then Inl AssertFail
            else
              case session sslot of
                None \<Rightarrow> Inl AssertFail
              | Some sn \<Rightarrow>
                  (case get_session r sn of
                     None \<Rightarrow> Inl BadPointer
                   | Some sess \<Rightarrow>
                       if \<not> is_client sess then Inl AssertFail
                       else
                         let sess1 = sess\<lparr>sslot_free_vec := sslot_free_vec sess @ [index sslot]\<rparr>;
                             r1 = put_session r sn sess1
                         in
                           if enq_req_backlog sess1 \<noteq> [] then
                             if length (sslot_free_vec sess1) \<noteq> 1 then Inl AssertFail
                             else
                               let args = hd (enq_req_backlog sess1) in
                               case enqueue_request kSessionCredits r1 args of
                                 Inl e \<Rightarrow> Inl e
                               | Inr r2 \<Rightarrow>
                                   (case get_session r2 sn of
                                      None \<Rightarrow> Inl BadPointer
                                    | Some sess2 \<Rightarrow>
                                        Inr (put_session r2 sn
                                              (sess2\<lparr>enq_req_backlog := tl (enq_req_backlog sess2)\<rparr>)))
                           else Inr r1))"

text \<open>
  A run of the dispatch thread that releases the session slots \<open>ps\<close> one after the other,
  stopping at the first error. It is the vehicle of the first-in first-out lemma below.
\<close>

fun release_all :: "size_t \<Rightarrow> Rpc \<Rightarrow> sslot_ptr list \<Rightarrow> error + Rpc" where
  "release_all kSessionCredits r [] = Inr r"
| "release_all kSessionCredits r (p # ps) =
     (case release_response kSessionCredits True r p of
        Inl e \<Rightarrow> Inl e
      | Inr r' \<Rightarrow> release_all kSessionCredits r' ps)"

subsection \<open>Concrete inputs for releasing a response\<close>

text \<open>
  A connected client session with one session slot whose response has been received, once
  with two requests in its backlog and once with none.
\<close>

definition sslot_done :: SSlot where
  "sslot_done = sslot_idle\<lparr>tx_msgbuf := None, num_rx := 2\<rparr>"

definition args_1 :: enq_req_args_t where
  "args_1 =
     \<lparr>a_session_num = 0, a_req_type = 1, a_req_msgbuf = Some msgbuf_4000,
      a_resp_msgbuf = Some msgbuf_4000, a_cont_func = 7, a_tag = 1, a_cont_etid = 0\<rparr>"

definition args_2 :: enq_req_args_t where
  "args_2 = args_1\<lparr>a_tag := 2\<rparr>"

definition session_nb :: Session where
  "session_nb = session_0\<lparr>sslot_arr := [sslot_done], credits := 8\<rparr>"

definition session_bl :: Session where
  "session_bl = session_nb\<lparr>enq_req_backlog := [args_1, args_2]\<rparr>"

definition rpc_nb :: Rpc where
  "rpc_nb = \<lparr>session_vec = [Some session_nb], active_rpcs = [], bg_queues_release_response = []\<rparr>"

definition rpc_bl :: Rpc where
  "rpc_bl = \<lparr>session_vec = [Some session_bl], active_rpcs = [], bg_queues_release_response = []\<rparr>"

subsection \<open>Session management: the connect request handler\<close>

text \<open>
  \<open>handle_session_connect_req\<close> (the implementation file that follows \<open>rpc.h\<close> in the
  sources, namespace \<open>ERpc\<close>, lines 1075-1109). Its packet and session types are not among
  the sources; they are records of the members the handler reads and writes.
\<close>

datatype SessionMgmtPktType = kConnectReq | kConnectResp | kDisconnectReq | kDisconnectResp

record SessionMetadata =
  hostname :: string
  app_tid :: int
  fdev_port_index :: nat
  session_num :: int

record SessionMgmtPkt =
  sm_pkt_type :: SessionMgmtPktType
  client :: SessionMetadata
  server :: SessionMetadata

record ERpc_Session =
  session_client :: SessionMetadata
  session_server :: SessionMetadata

text \<open>C's \<open>strcmp\<close>: 0 for equal strings, negative or positive by the first difference.\<close>

fun strcmp :: "string \<Rightarrow> string \<Rightarrow> int" where
  "strcmp [] [] = 0"
| "strcmp [] (y # ys) = - 1"
| "strcmp (x # xs) [] = 1"
| "strcmp (x # xs) (y # ys) =
     (if x = y then strcmp xs ys
      else if (of_char x :: nat) < of_char y then - 1 else 1)"

text \<open>
  The loop over \<open>session_vec\<close> that looks for a session with this client. \<open>Inr True\<close>: the
  handler returned from inside the loop ("duplicate session connect request"); \<open>Inr False\<close>:
  the loop ran to its end. The condition is the source's: \<open>strcmp(...)\<close> as a truth value
  (true when the two hostnames differ) and equal \<open>app_tid\<close>s.
\<close>

fun connect_req_scan :: "ERpc_Session list \<Rightarrow> SessionMgmtPkt \<Rightarrow> error + bool" where
  "connect_req_scan [] pkt = Inr False"
| "connect_req_scan (existing_session # rest) pkt =
     (if strcmp (hostname (session_client existing_session)) (hostname (client pkt)) \<noteq> 0
         \<and> app_tid (session_client existing_session) = app_tid (client pkt)
      then
        (if session_num (session_client existing_session) = session_num (client pkt)
         then Inr True else Inl AssertFail)
      else connect_req_scan rest pkt)"

text \<open>
  The handler. \<open>this_app_tid\<close> and \<open>nexus_hostname\<close> are \<open>app_tid\<close> and \<open>nexus->hostname\<close> of
  the endpoint; \<open>is_fdev_port_managed\<close> is not among the sources and is an argument (the
  branch it guards is empty). The result holds what the call leaves behind: the session
  object it created with \<open>new\<close>, if any, and the session management packets it sent. The
  source has no statement that sends a packet, on any path; the created session is not
  stored in \<open>session_vec\<close>.
\<close>

definition handle_session_connect_req ::
  "int \<Rightarrow> string \<Rightarrow> (nat \<Rightarrow> bool) \<Rightarrow> ERpc_Session list \<Rightarrow> SessionMgmtPkt option
     \<Rightarrow> error + ERpc_Session option \<times> SessionMgmtPkt list" where
  "handle_session_connect_req this_app_tid nexus_hostname is_fdev_port_managed session_vector p =
     (case p of
        None \<Rightarrow> Inl AssertFail
      | Some pkt \<Rightarrow>
          if sm_pkt_type pkt \<noteq> kConnectReq then Inl AssertFail
          else if app_tid (server pkt) \<noteq> this_app_tid then Inl AssertFail
          else if \<not> strcmp (hostname (server pkt)) nexus_hostname \<noteq> 0 then Inl AssertFail
          else
            case connect_req_scan session_vector pkt of
              Inl e \<Rightarrow> Inl e
            | Inr True \<Rightarrow> Inr (None, [])
            | Inr False \<Rightarrow>
                Inr (Some \<lparr>session_client = client pkt, session_server = server pkt\<rparr>, []))"

subsection \<open>Concrete inputs for the connect request handler\<close>

text \<open>
  A server endpoint (\<open>app_tid\<close> 1) that already holds a session with the client
  \<open>(''client-a'', 5)\<close>, and two connect requests: one from that same client, one from
  another host with the same \<open>app_tid\<close> and session number.
\<close>

definition client_a :: SessionMetadata where
  "client_a = \<lparr>hostname = ''client-a'', app_tid = 5, fdev_port_index = 0, session_num = 0\<rparr>"

definition client_b :: SessionMetadata where
  "client_b = client_a\<lparr>hostname := ''client-b''\<rparr>"

definition server_x :: SessionMetadata where
  "server_x = \<lparr>hostname = ''server-x'', app_tid = 1, fdev_port_index = 0, session_num = 0\<rparr>"

definition session_a :: ERpc_Session where
  "session_a = \<lparr>session_client = client_a, session_server = server_x\<rparr>"

definition connect_req_a :: SessionMgmtPkt where
  "connect_req_a = \<lparr>sm_pkt_type = kConnectReq, client = client_a, server = server_x\<rparr>"

definition connect_req_b :: SessionMgmtPkt where
  "connect_req_b = \<lparr>sm_pkt_type = kConnectReq, client = client_b, server = server_x\<rparr>"

definition port_managed :: "nat \<Rightarrow> bool" where
  "port_managed i = True"

subsection \<open>The timing wheel\<close>

text \<open>
  Modelled from the spec: the timing wheel (cc/timing_wheel.h is not among the sources),
  "a priority structure over virtual timestamps". It is the list of its pending entries,
  each an entry \<open>wheel_ent_t(sslot, pkt_num)\<close> with its desired transmit timestamp;
  \<open>insert\<close> adds one entry.
\<close>

record wheel_ent_t =
  we_sslot :: sslot_ptr
  we_pkt_num :: size_t

type_synonym TimingWheel = "(wheel_ent_t \<times> size_t) list"

definition wheel_insert :: "TimingWheel \<Rightarrow> wheel_ent_t \<Rightarrow> size_t \<Rightarrow> size_t \<Rightarrow> TimingWheel" where
  "wheel_insert wheel ent ref_tsc desired_tx_tsc = wheel @ [(ent, desired_tx_tsc)]"

text \<open>
  \<open>enqueue_wheel_req_st\<close> (rpc.h, 581-594) and \<open>enqueue_wheel_rfr_st\<close> (rpc.h, 597-611).
  \<open>sslot_p\<close> is the pointer \<open>sslot\<close>, \<open>sslot\<close> the slot it points to and \<open>sess\<close> the session
  \<open>sslot->session\<close> points to. \<open>MsgBuffer::get_pkt_size\<close> and
  \<open>Session::cc_getupdate_tx_tsc\<close> (which updates the session's congestion control state)
  are not among the sources and are arguments; \<open>ref_tsc\<close> is what \<open>dpath_rdtsc()\<close> returns.
  The result is the wheel, the session and the slot after the call.
\<close>

definition enqueue_wheel_req_st ::
  "size_t \<Rightarrow> (MsgBuffer \<Rightarrow> size_t \<Rightarrow> size_t) \<Rightarrow> (Session \<Rightarrow> size_t \<Rightarrow> size_t \<Rightarrow> size_t \<times> Session)
     \<Rightarrow> size_t \<Rightarrow> TimingWheel \<Rightarrow> Session \<Rightarrow> sslot_ptr \<Rightarrow> SSlot \<Rightarrow> size_t
     \<Rightarrow> error + TimingWheel \<times> Session \<times> SSlot" where
  "enqueue_wheel_req_st kSessionCredits get_pkt_size cc_getupdate_tx_tsc ref_tsc
       wheel sess sslot_p sslot pktnum =
     (case tx_msgbuf sslot of
        None \<Rightarrow> Inl BadPointer
      | Some m \<Rightarrow>
          let pkt_idx = pktnum;
              pktsz = get_pkt_size m pkt_idx;
              (desired_tx_tsc, sess') = cc_getupdate_tx_tsc sess ref_tsc pktsz;
              wheel' = wheel_insert wheel \<lparr>we_sslot = sslot_p, we_pkt_num = pktnum\<rparr>
                         ref_tsc desired_tx_tsc
          in Inr (wheel', sess',
                  sslot\<lparr>in_wheel := (in_wheel sslot)[unat (pktnum mod kSessionCredits) := True],
                        wheel_count := wheel_count sslot + 1\<rparr>))"

definition enqueue_wheel_rfr_st ::
  "size_t \<Rightarrow> (MsgBuffer \<Rightarrow> size_t \<Rightarrow> size_t) \<Rightarrow> (Session \<Rightarrow> size_t \<Rightarrow> size_t \<Rightarrow> size_t \<times> Session)
     \<Rightarrow> size_t \<Rightarrow> TimingWheel \<Rightarrow> Session \<Rightarrow> sslot_ptr \<Rightarrow> SSlot \<Rightarrow> size_t
     \<Rightarrow> error + TimingWheel \<times> Session \<times> SSlot" where
  "enqueue_wheel_rfr_st kSessionCredits get_pkt_size cc_getupdate_tx_tsc ref_tsc
       wheel sess sslot_p sslot pktnum =
     (case tx_msgbuf sslot of
        None \<Rightarrow> Inl BadPointer
      | Some m \<Rightarrow>
          (case resp_msgbuf sslot of
             None \<Rightarrow> Inl BadPointer
           | Some rm \<Rightarrow>
               let pkt_idx = resp_ntoi pktnum (num_pkts m);
                   pktsz = get_pkt_size rm pkt_idx;
                   (desired_tx_tsc, sess') = cc_getupdate_tx_tsc sess ref_tsc pktsz;
                   wheel' = wheel_insert wheel \<lparr>we_sslot = sslot_p, we_pkt_num = pktnum\<rparr>
                              ref_tsc desired_tx_tsc
               in Inr (wheel', sess',
                       sslot\<lparr>in_wheel := (in_wheel sslot)[unat (pktnum mod kSessionCredits) := True],
                             wheel_count := wheel_count sslot + 1\<rparr>)))"

text \<open>
  The pending wheel entries of the slot \<open>sslot_p\<close> whose packet number is \<open>i\<close> modulo
  \<open>kSessionCredits\<close>, and the relation between them and the slot's \<open>in_wheel\<close> bits that
  the spec states: bit \<open>i\<close> is set iff there is exactly one such entry.
\<close>

definition pending_for :: "size_t \<Rightarrow> TimingWheel \<Rightarrow> sslot_ptr \<Rightarrow> nat \<Rightarrow> (wheel_ent_t \<times> size_t) list" where
  "pending_for kSessionCredits wheel sslot_p i =
     filter (\<lambda>e. we_sslot (fst e) = sslot_p \<and> unat (we_pkt_num (fst e) mod kSessionCredits) = i)
       wheel"

definition in_wheel_exact :: "size_t \<Rightarrow> TimingWheel \<Rightarrow> sslot_ptr \<Rightarrow> SSlot \<Rightarrow> bool" where
  "in_wheel_exact kSessionCredits wheel sslot_p sslot =
     list_all (\<lambda>i. in_wheel sslot ! i = (length (pending_for kSessionCredits wheel sslot_p i) = 1))
       [0 ..< unat kSessionCredits]"

section \<open>Properties\<close>

subsection \<open>Ceiling division\<close>

lemma int_ceil_div:
  fixes a b :: int
  assumes b: "0 < b"
  shows "- (- a div b) = (a + b - 1) div b"
proof -
  define q where "q = a div b"
  define r where "r = a mod b"
  have a: "a = b * q + r" by (simp add: q_def r_def)
  have r: "0 \<le> r" "r < b" using b by (simp_all add: r_def)
  have lhs: "- (- a div b) = (if r = 0 then q else q + 1)"
    using b by (simp add: zdiv_zminus1_eq_if q_def r_def)
  have "(a + b - 1) div b = (b * q + (r + b - 1)) div b"
    by (simp add: a algebra_simps)
  also have "\<dots> = q + (r + b - 1) div b" using b by simp
  also have "(r + b - 1) div b = (if r = 0 then 0 else 1)"
  proof (cases "r = 0")
    case True
    then show ?thesis using b by simp
  next
    case False
    then have e: "r + b - 1 = (r - 1) + b" and l: "0 \<le> r - 1" and u: "r - 1 < b"
      using r by simp_all
    have "(r + b - 1) div b = ((r - 1) + b) div b" by (simp only: e)
    also have "\<dots> = (r - 1) div b + 1" using b by simp
    also have "(r - 1) div b = 0" using l u by (rule div_pos_pos_trivial)
    finally show ?thesis using False by simp
  qed
  finally show ?thesis using lhs by simp
qed

lemma ceil_div_nat:
  assumes M: "0 < M"
  shows "nat \<lceil>real d / real M\<rceil> = (d + M - 1) div M"
proof -
  have "\<lceil>real d / real M\<rceil> = \<lceil>of_int (int d) / of_int (int M) :: real\<rceil>" by simp
  also have "\<dots> = - (- int d div int M)" by (rule ceiling_divide_eq_div)
  also have "\<dots> = (int d + int M - 1) div int M" using M by (simp add: int_ceil_div)
  also have "\<dots> = int ((d + M - 1) div M)" using M
    by (simp add: zdiv_int of_nat_diff)
  finally show ?thesis by simp
qed

lemma num_pkts_spec_div:
  assumes M: "0 < M"
  shows "num_pkts_spec M d = (if d \<le> M then 1 else (d + M - 1) div M)"
proof -
  have c: "num_pkts_spec M d = max 1 ((d + M - 1) div M)"
    unfolding num_pkts_spec_def using M by (simp only: ceil_div_nat)
  show ?thesis
  proof (cases "d \<le> M")
    case True
    then have "d + M - 1 < 2 * M" using M by simp
    then have "(d + M - 1) div M < 2"
      using M by (simp add: less_mult_imp_div_less mult.commute)
    then show ?thesis using True c by simp
  next
    case False
    then have "M \<le> d + M - 1" by simp
    then have "1 \<le> (d + M - 1) div M" using M
      by (metis div_le_mono div_self less_numeral_extra(3))
    then show ?thesis using False c by simp
  qed
qed

lemma data_size_to_num_pkts_nat:
  assumes M: "0 < M" and nw: "unat d + unat M \<le> 2 ^ 64"
  shows "unat (data_size_to_num_pkts M d) = num_pkts_spec (unat M) (unat d)"
proof -
  have Mp: "0 < unat M" using M by (simp add: word_less_nat_alt)
  show ?thesis
  proof (cases "d \<le> M")
    case True
    then have le: "unat d \<le> unat M" by (simp add: word_le_nat_alt)
    then show ?thesis using True Mp
      by (simp add: data_size_to_num_pkts_def num_pkts_spec_div)
  next
    case False
    then have gt: "\<not> unat d \<le> unat M" by (simp add: word_le_nat_alt)
    have m1: "unat (M - 1) = unat M - 1"
      using M by (simp add: unat_minus_one)
    have "unat d + unat (M - 1) < 2 ^ LENGTH(64)" using nw Mp m1 by simp
    then have "unat (d + (M - 1)) = unat d + unat (M - 1)"
      by (simp only: unat_add_lem)
    then have "unat (d + M - 1) = unat d + unat M - 1"
      using m1 Mp by (simp add: add_diff_eq)
    then have "unat ((d + M - 1) div M) = (unat d + unat M - 1) div unat M"
      by (simp add: unat_div)
    then show ?thesis using False gt Mp
      by (simp add: data_size_to_num_pkts_def num_pkts_spec_div)
  qed
qed

subsection \<open>Packet counts (claim C3)\<close>

lemma alloc_msg_buffer_num_pkts:
  assumes "alloc_msg_buffer M H mg alloc h n = Inr (m, h')" and "is_valid m"
  shows "num_pkts m = data_size_to_num_pkts M n"
  using assms
  by (auto simp: alloc_msg_buffer_def Let_def is_valid_def MsgBuffer_ctor_def
      split: if_splits sum.splits prod.splits)

lemma resize_msg_buffer_num_pkts:
  assumes "resize_msg_buffer M m n = Inr m'"
  shows "num_pkts m' = data_size_to_num_pkts M n"
  using assms
  by (auto simp: resize_msg_buffer_def Let_def MsgBuffer_resize_def split: if_splits)

text \<open>
  Claim C3, as amended. The claim says "for every \<open>data_size\<close>"; the function computes
  \<open>data_size + kMaxDataPerPkt - 1\<close> in \<open>size_t\<close>, so the statement holds for every
  \<open>data_size\<close> for which that sum does not wrap: \<open>data_size + kMaxDataPerPkt \<le> 2^64\<close>.
  There \<open>data_size_to_num_pkts\<close> is the ceiling of \<open>data_size / kMaxDataPerPkt\<close> with a
  floor of 1. It is 1 for every \<open>data_size\<close> from 0 to \<open>kMaxDataPerPkt\<close>. A valid MsgBuffer
  returned by \<open>alloc_msg_buffer\<close>, and a MsgBuffer resized by \<open>resize_msg_buffer\<close>, has
  this value as its \<open>num_pkts\<close>.
\<close>

theorem data_size_to_num_pkts_ceil:
  assumes "0 < kMaxDataPerPkt" and "unat dsize + unat kMaxDataPerPkt \<le> 2 ^ 64"
  shows "unat (data_size_to_num_pkts kMaxDataPerPkt dsize)
           = num_pkts_spec (unat kMaxDataPerPkt) (unat dsize)
       \<and> (dsize \<le> kMaxDataPerPkt \<longrightarrow> data_size_to_num_pkts kMaxDataPerPkt dsize = 1)
       \<and> (\<forall>m h'. alloc_msg_buffer kMaxDataPerPkt H mg alloc h dsize = Inr (m, h') \<and> is_valid m
             \<longrightarrow> num_pkts m = data_size_to_num_pkts kMaxDataPerPkt dsize)
       \<and> (\<forall>m m'. resize_msg_buffer kMaxDataPerPkt m dsize = Inr m'
             \<longrightarrow> num_pkts m' = data_size_to_num_pkts kMaxDataPerPkt dsize)"
proof (intro conjI allI impI)
  show "unat (data_size_to_num_pkts kMaxDataPerPkt dsize)
           = num_pkts_spec (unat kMaxDataPerPkt) (unat dsize)"
    using assms by (rule data_size_to_num_pkts_nat)
next
  assume "dsize \<le> kMaxDataPerPkt"
  then show "data_size_to_num_pkts kMaxDataPerPkt dsize = 1"
    by (simp add: data_size_to_num_pkts_def)
next
  fix m h'
  assume "alloc_msg_buffer kMaxDataPerPkt H mg alloc h dsize = Inr (m, h') \<and> is_valid m"
  then show "num_pkts m = data_size_to_num_pkts kMaxDataPerPkt dsize"
    by (blast intro: alloc_msg_buffer_num_pkts)
next
  fix m m'
  assume "resize_msg_buffer kMaxDataPerPkt m dsize = Inr m'"
  then show "num_pkts m' = data_size_to_num_pkts kMaxDataPerPkt dsize"
    by (rule resize_msg_buffer_num_pkts)
qed

text \<open>Claim C3, witness: 100 data bytes with 1024 data bytes per packet.\<close>

theorem data_size_to_num_pkts_ceil_witness:
  "unat (data_size_to_num_pkts 1024 100) = num_pkts_spec (unat (1024 :: size_t)) (unat (100 :: size_t))
   \<and> data_size_to_num_pkts 1024 100 = 1
   \<and> num_pkts (fst (projr (alloc_msg_buffer 1024 16 11 alloc_ok () 100))) = 1
   \<and> num_pkts (projr (resize_msg_buffer 1024 msgbuf_4000 100)) = 1"
proof -
  have a: "alloc_msg_buffer 1024 16 11 alloc_ok () 100
      = Inr (MsgBuffer_ctor 16 11 \<lparr>Buffer_buf = Addr 4096, class_size = 116\<rparr> 100 1, ())"
    by (simp add: alloc_msg_buffer_def alloc_ok_def data_size_to_num_pkts_def)
  have v: "is_valid (MsgBuffer_ctor 16 11 \<lparr>Buffer_buf = Addr 4096, class_size = 116\<rparr> 100 1)"
    by (simp add: is_valid_def MsgBuffer_ctor_def)
  have r: "resize_msg_buffer 1024 msgbuf_4000 100 = Inr (MsgBuffer_resize msgbuf_4000 100 1)"
    by (simp add: resize_msg_buffer_def msgbuf_4000_def is_valid_def MsgBuffer_ctor_def
        data_size_to_num_pkts_def)
  have h1: "0 < (1024 :: size_t)" by simp
  have h2: "unat (100 :: size_t) + unat (1024 :: size_t) \<le> 2 ^ 64" by simp
  have le: "(100 :: size_t) \<le> 1024" by simp
  note t = data_size_to_num_pkts_ceil [OF h1 h2, of 16 11 alloc_ok "()"]
  have c1: "unat (data_size_to_num_pkts 1024 100)
      = num_pkts_spec (unat (1024 :: size_t)) (unat (100 :: size_t))"
    using t by (rule conjunct1)
  have c2: "data_size_to_num_pkts 1024 100 = 1" using t le by blast
  have c3: "num_pkts (MsgBuffer_ctor 16 11 \<lparr>Buffer_buf = Addr 4096, class_size = 116\<rparr> 100 1)
      = data_size_to_num_pkts 1024 100"
    using t a v by blast
  have c4: "num_pkts (MsgBuffer_resize msgbuf_4000 100 1) = data_size_to_num_pkts 1024 100"
    using t r by blast
  show ?thesis using c1 c2 c3 c4 by (simp only: a r sum.sel fst_conv simp_thms)
qed

text \<open>
  Claim C3, counterexample to the claim as stated: with 1024 data bytes per packet and
  \<open>data_size = 2^64 - 1\<close> the sum wraps to 1022 and the function returns 0, which is not
  the ceiling with a floor of 1.
\<close>

theorem data_size_to_num_pkts_counterexample:
  "unat (data_size_to_num_pkts 1024 18446744073709551615)
     \<noteq> num_pkts_spec (unat (1024 :: size_t)) (unat (18446744073709551615 :: size_t))"
proof -
  have "data_size_to_num_pkts 1024 18446744073709551615 = 0"
    by (simp add: data_size_to_num_pkts_def)
  moreover have "1 \<le> num_pkts_spec (unat (1024 :: size_t)) (unat (18446744073709551615 :: size_t))"
    unfolding num_pkts_spec_def by (rule max.cobounded1)
  ultimately show ?thesis by simp
qed

subsection \<open>Allocation of a MsgBuffer (claims C5 and C10)\<close>

text \<open>
  The size that \<open>alloc_msg_buffer\<close> asks of the allocator is a \<open>size_t\<close> sum and product.
  When neither wraps, it is \<open>max_data_size\<close> plus one header for each of the
  \<open>ceil(max_data_size / kMaxDataPerPkt)\<close> packets.
\<close>

lemma alloc_request_nat:
  assumes M: "0 < kMaxDataPerPkt"
    and nw1: "unat max_data_sz + unat kMaxDataPerPkt \<le> 2 ^ 64"
    and nw2: "unat max_data_sz
                + num_pkts_spec (unat kMaxDataPerPkt) (unat max_data_sz) * unat sizeof_pkthdr_t
              < 2 ^ 64"
  shows "unat (max_data_sz + data_size_to_num_pkts kMaxDataPerPkt max_data_sz * sizeof_pkthdr_t)
           = unat max_data_sz
               + num_pkts_spec (unat kMaxDataPerPkt) (unat max_data_sz) * unat sizeof_pkthdr_t"
proof -
  define n where "n = data_size_to_num_pkts kMaxDataPerPkt max_data_sz"
  have n: "unat n = num_pkts_spec (unat kMaxDataPerPkt) (unat max_data_sz)"
    unfolding n_def using M nw1 by (rule data_size_to_num_pkts_nat)
  have "unat n * unat sizeof_pkthdr_t < 2 ^ LENGTH(64)" using nw2 n by simp
  then have m: "unat (n * sizeof_pkthdr_t) = unat n * unat sizeof_pkthdr_t"
    by (simp only: unat_mult_lem)
  have "unat max_data_sz + unat (n * sizeof_pkthdr_t) < 2 ^ LENGTH(64)" using nw2 n m by simp
  then have "unat (max_data_sz + n * sizeof_pkthdr_t)
      = unat max_data_sz + unat (n * sizeof_pkthdr_t)"
    by (simp only: unat_add_lem)
  then show ?thesis using m n by (simp add: n_def)
qed

text \<open>
  Claim C5, as amended. Let \<open>max_data_size > 0\<close> (the function's assertion), and let the
  \<open>size_t\<close> arithmetic of the function not wrap: \<open>max_data_size + kMaxDataPerPkt \<le> 2^64\<close>
  for the packet count, and \<open>max_data_size + num_pkts * sizeof(pkthdr_t) < 2^64\<close> for the
  size. Then \<open>alloc_msg_buffer\<close> asks the allocator for exactly \<open>asked\<close> bytes, where
  \<open>asked\<close> is \<open>max_data_size\<close> data bytes plus \<open>sizeof(pkthdr_t)\<close> for each of the
  \<open>ceil(max_data_size / kMaxDataPerPkt)\<close> packets, and what it returns is decided by the
  allocator's answer to that request. If the allocator throws, so does \<open>alloc_msg_buffer\<close>
  (as its doc comment says). If the allocator has run out of memory (the \<open>Buffer\<close>'s \<open>buf\<close>
  is null), \<open>alloc_msg_buffer\<close> returns, without throwing, an invalid MsgBuffer whose
  \<open>buf\<close> is null. Otherwise it returns a valid MsgBuffer on the \<open>Buffer\<close> the allocator
  gave for that size, with \<open>max_data_size\<close> data bytes, that many packets, the payload
  behind the zeroth header, and the magic set in the zeroth header.
\<close>

theorem alloc_msg_buffer_outcomes:
  assumes pos: "0 < max_data_sz"
    and M: "0 < kMaxDataPerPkt"
    and nw1: "unat max_data_sz + unat kMaxDataPerPkt \<le> 2 ^ 64"
    and nw2: "unat max_data_sz
                + num_pkts_spec (unat kMaxDataPerPkt) (unat max_data_sz) * unat sizeof_pkthdr_t
              < 2 ^ 64"
  shows "\<exists>asked.
           unat asked
             = unat max_data_sz
                 + num_pkts_spec (unat kMaxDataPerPkt) (unat max_data_sz) * unat sizeof_pkthdr_t
           \<and> (case alloc h asked of
                Inl e \<Rightarrow>
                  alloc_msg_buffer kMaxDataPerPkt sizeof_pkthdr_t kPktHdrMagic alloc h max_data_sz
                    = Inl e
              | Inr (b, h') \<Rightarrow>
                  if Buffer_buf b = nullptr then
                    \<exists>m. alloc_msg_buffer kMaxDataPerPkt sizeof_pkthdr_t kPktHdrMagic alloc h
                            max_data_sz = Inr (m, h')
                        \<and> buf m = nullptr \<and> \<not> is_valid m
                  else
                    \<exists>m. alloc_msg_buffer kMaxDataPerPkt sizeof_pkthdr_t kPktHdrMagic alloc h
                            max_data_sz = Inr (m, h')
                        \<and> is_valid m \<and> buffer m = b
                        \<and> max_data_size m = max_data_sz \<and> data_size m = max_data_sz
                        \<and> num_pkts m = data_size_to_num_pkts kMaxDataPerPkt max_data_sz
                        \<and> unat (num_pkts m)
                            = num_pkts_spec (unat kMaxDataPerPkt) (unat max_data_sz)
                        \<and> buf m = ptr_add (Buffer_buf b) sizeof_pkthdr_t
                        \<and> pkthdr_0_magic m = kPktHdrMagic)"
proof -
  define asked where
    "asked = max_data_sz + data_size_to_num_pkts kMaxDataPerPkt max_data_sz * sizeof_pkthdr_t"
  have a: "unat asked
             = unat max_data_sz
                 + num_pkts_spec (unat kMaxDataPerPkt) (unat max_data_sz) * unat sizeof_pkthdr_t"
    unfolding asked_def using M nw1 nw2 by (rule alloc_request_nat)
  have n: "unat (data_size_to_num_pkts kMaxDataPerPkt max_data_sz)
      = num_pkts_spec (unat kMaxDataPerPkt) (unat max_data_sz)"
    using M nw1 by (rule data_size_to_num_pkts_nat)
  have nn: "ptr_add p sizeof_pkthdr_t \<noteq> nullptr" if "p \<noteq> nullptr" for p
    using that by (cases p) simp_all
  have c: "case alloc h asked of
                Inl e \<Rightarrow>
                  alloc_msg_buffer kMaxDataPerPkt sizeof_pkthdr_t kPktHdrMagic alloc h max_data_sz
                    = Inl e
              | Inr (b, h') \<Rightarrow>
                  if Buffer_buf b = nullptr then
                    \<exists>m. alloc_msg_buffer kMaxDataPerPkt sizeof_pkthdr_t kPktHdrMagic alloc h
                            max_data_sz = Inr (m, h')
                        \<and> buf m = nullptr \<and> \<not> is_valid m
                  else
                    \<exists>m. alloc_msg_buffer kMaxDataPerPkt sizeof_pkthdr_t kPktHdrMagic alloc h
                            max_data_sz = Inr (m, h')
                        \<and> is_valid m \<and> buffer m = b
                        \<and> max_data_size m = max_data_sz \<and> data_size m = max_data_sz
                        \<and> num_pkts m = data_size_to_num_pkts kMaxDataPerPkt max_data_sz
                        \<and> unat (num_pkts m)
                            = num_pkts_spec (unat kMaxDataPerPkt) (unat max_data_sz)
                        \<and> buf m = ptr_add (Buffer_buf b) sizeof_pkthdr_t
                        \<and> pkthdr_0_magic m = kPktHdrMagic"
    using pos n nn
    by (auto simp: alloc_msg_buffer_def Let_def is_valid_def MsgBuffer_ctor_def asked_def
        split: sum.splits prod.splits)
  show ?thesis using a c by blast
qed

text \<open>
  Claim C5, witness: 4000 data bytes, 1024 per packet and 16-byte headers, once with an
  allocator that is out of memory and once with one that returns a \<open>Buffer\<close>; the size
  asked is \<open>4000 + 4 * 16\<close>.
\<close>

theorem alloc_msg_buffer_outcomes_witness:
  "alloc_msg_buffer 1024 16 11 alloc_oom () 4000 = Inr (MsgBuffer_default, ())
   \<and> buf MsgBuffer_default = nullptr
   \<and> alloc_msg_buffer 1024 16 11 alloc_ok () 4000 = Inr (msgbuf_4000, ())
   \<and> is_valid msgbuf_4000 \<and> num_pkts msgbuf_4000 = 4 \<and> max_data_size msgbuf_4000 = 4000
   \<and> class_size (buffer msgbuf_4000) = 4000 + 4 * 16
   \<and> pkthdr_0_magic msgbuf_4000 = 11"
proof -
  have pos: "0 < (4000 :: size_t)" by simp
  have M: "0 < (1024 :: size_t)" by simp
  have s0: "num_pkts_spec 1024 4000 = 4" by (simp add: num_pkts_spec_div)
  have s: "num_pkts_spec (unat (1024 :: size_t)) (unat (4000 :: size_t)) = 4"
    by (simp add: s0)
  have nw1: "unat (4000 :: size_t) + unat (1024 :: size_t) \<le> 2 ^ 64" by simp
  have nw2: "unat (4000 :: size_t)
      + num_pkts_spec (unat (1024 :: size_t)) (unat (4000 :: size_t)) * unat (16 :: size_t) < 2 ^ 64"
    by (simp add: s0)
  have e1: "alloc_msg_buffer 1024 16 11 alloc_oom () 4000 = Inr (MsgBuffer_default, ())"
    by (simp add: alloc_msg_buffer_def alloc_oom_def MsgBuffer_default_def)
  have n: "data_size_to_num_pkts 1024 4000 = 4" by (simp add: data_size_to_num_pkts_def)
  have e2: "alloc_msg_buffer 1024 16 11 alloc_ok () 4000 = Inr (msgbuf_4000, ())"
    by (simp add: alloc_msg_buffer_def alloc_ok_def msgbuf_4000_def n)
  from alloc_msg_buffer_outcomes [OF pos M nw1 nw2,
      where alloc = alloc_oom and h = "()" and kPktHdrMagic = 11]
  obtain asked1 :: size_t where
    "case alloc_oom () asked1 of
       Inl e \<Rightarrow> alloc_msg_buffer 1024 16 11 alloc_oom () 4000 = Inl e
     | Inr (b, h') \<Rightarrow>
         if Buffer_buf b = nullptr then
           \<exists>m. alloc_msg_buffer 1024 16 11 alloc_oom () 4000 = Inr (m, h')
               \<and> buf m = nullptr \<and> \<not> is_valid m
         else
           \<exists>m. alloc_msg_buffer 1024 16 11 alloc_oom () 4000 = Inr (m, h')
               \<and> is_valid m \<and> buffer m = b
               \<and> max_data_size m = 4000 \<and> data_size m = 4000
               \<and> num_pkts m = data_size_to_num_pkts 1024 4000
               \<and> unat (num_pkts m) = num_pkts_spec (unat (1024 :: size_t)) (unat (4000 :: size_t))
               \<and> buf m = ptr_add (Buffer_buf b) 16
               \<and> pkthdr_0_magic m = 11"
    by blast
  then have w1: "buf MsgBuffer_default = nullptr"
    by (simp add: alloc_oom_def e1)
  from alloc_msg_buffer_outcomes [OF pos M nw1 nw2,
      where alloc = alloc_ok and h = "()" and kPktHdrMagic = 11]
  obtain asked2 :: size_t where
    a2: "unat asked2 = unat (4000 :: size_t)
      + num_pkts_spec (unat (1024 :: size_t)) (unat (4000 :: size_t)) * unat (16 :: size_t)"
    and c2: "case alloc_ok () asked2 of
       Inl e \<Rightarrow> alloc_msg_buffer 1024 16 11 alloc_ok () 4000 = Inl e
     | Inr (b, h') \<Rightarrow>
         if Buffer_buf b = nullptr then
           \<exists>m. alloc_msg_buffer 1024 16 11 alloc_ok () 4000 = Inr (m, h')
               \<and> buf m = nullptr \<and> \<not> is_valid m
         else
           \<exists>m. alloc_msg_buffer 1024 16 11 alloc_ok () 4000 = Inr (m, h')
               \<and> is_valid m \<and> buffer m = b
               \<and> max_data_size m = 4000 \<and> data_size m = 4000
               \<and> num_pkts m = data_size_to_num_pkts 1024 4000
               \<and> unat (num_pkts m) = num_pkts_spec (unat (1024 :: size_t)) (unat (4000 :: size_t))
               \<and> buf m = ptr_add (Buffer_buf b) 16
               \<and> pkthdr_0_magic m = 11"
    by blast
  have "unat asked2 = unat (4064 :: size_t)" using a2 by (simp add: s0)
  then have asked2: "asked2 = 4064" by (simp only: word_unat_eq_iff)
  have w2: "is_valid msgbuf_4000 \<and> num_pkts msgbuf_4000 = 4 \<and> max_data_size msgbuf_4000 = 4000
      \<and> class_size (buffer msgbuf_4000) = 4000 + 4 * 16 \<and> pkthdr_0_magic msgbuf_4000 = 11"
    using c2 by (simp add: asked2 alloc_ok_def e2 n)
  show ?thesis using e1 e2 w1 w2 by simp
qed

text \<open>
  Claim C5, counterexample to the claim as stated. With 1024 data bytes per packet and
  16-byte headers, \<open>max_data_size = 18162948011037097984\<close> needs 17737253917028416
  packets; the \<open>size_t\<close> sum of the data bytes and the headers is \<open>2^64 + 1024\<close> and wraps
  to 1024. So the allocator is asked for 1024 bytes (the allocator \<open>alloc_ok\<close> notes the
  size it was asked for in \<open>class_size\<close>), and \<open>alloc_msg_buffer\<close> returns a valid
  MsgBuffer with that \<open>max_data_size\<close> on it: not one sized for \<open>max_data_size\<close> data bytes
  plus one header per packet.
\<close>

theorem alloc_msg_buffer_outcomes_counterexample:
  "alloc_msg_buffer 1024 16 11 alloc_ok () 18162948011037097984
     = Inr (MsgBuffer_ctor 16 11 \<lparr>Buffer_buf = Addr 4096, class_size = 1024\<rparr>
              18162948011037097984 17737253917028416, ())
   \<and> is_valid (MsgBuffer_ctor 16 11 \<lparr>Buffer_buf = Addr 4096, class_size = 1024\<rparr>
                 18162948011037097984 17737253917028416)
   \<and> (18162948011037097984 + data_size_to_num_pkts 1024 18162948011037097984 * 16 :: size_t) = 1024
   \<and> unat (1024 :: size_t) < unat (18162948011037097984 :: size_t)"
proof -
  have n: "data_size_to_num_pkts 1024 18162948011037097984 = 17737253917028416"
    by (simp add: data_size_to_num_pkts_def)
  show ?thesis
    by (simp add: alloc_msg_buffer_def alloc_ok_def n is_valid_def MsgBuffer_ctor_def)
qed

text \<open>
  Claim C10. \<open>alloc_msg_buffer\<close> asserts \<open>max_data_size > 0\<close>: called with 0 it fails the
  assertion, whatever the allocator does. \<open>data_size_to_num_pkts(0)\<close> is 1, and
  \<open>resize_msg_buffer\<close> accepts the new data size 0 on every valid MsgBuffer, giving data
  size 0 and one packet. So a valid MsgBuffer that \<open>alloc_msg_buffer\<close> returns never has
  data size (or maximum data size) 0, and resizing it to 0 succeeds: a zero-byte payload is
  obtained by allocating at least one byte and resizing down.
\<close>

theorem alloc_msg_buffer_zero_size:
  "alloc_msg_buffer kMaxDataPerPkt sizeof_pkthdr_t kPktHdrMagic alloc h 0 = Inl AssertFail
   \<and> data_size_to_num_pkts kMaxDataPerPkt 0 = 1
   \<and> (is_valid m \<longrightarrow>
        resize_msg_buffer kMaxDataPerPkt m 0 = Inr (m\<lparr>data_size := 0, num_pkts := 1\<rparr>))
   \<and> (alloc_msg_buffer kMaxDataPerPkt sizeof_pkthdr_t kPktHdrMagic alloc h n = Inr (m', h')
          \<and> is_valid m' \<longrightarrow>
        data_size m' \<noteq> 0 \<and> max_data_size m' \<noteq> 0
        \<and> resize_msg_buffer kMaxDataPerPkt m' 0 = Inr (m'\<lparr>data_size := 0, num_pkts := 1\<rparr>))"
proof (intro conjI impI)
  show "alloc_msg_buffer kMaxDataPerPkt sizeof_pkthdr_t kPktHdrMagic alloc h 0 = Inl AssertFail"
    by (simp add: alloc_msg_buffer_def)
  show z: "data_size_to_num_pkts kMaxDataPerPkt 0 = 1"
    by (simp add: data_size_to_num_pkts_def)
  show r: "resize_msg_buffer kMaxDataPerPkt m 0 = Inr (m\<lparr>data_size := 0, num_pkts := 1\<rparr>)"
    if "is_valid m" for m
    using that by (simp add: resize_msg_buffer_def z MsgBuffer_resize_def)
  assume a: "alloc_msg_buffer kMaxDataPerPkt sizeof_pkthdr_t kPktHdrMagic alloc h n = Inr (m', h')
          \<and> is_valid m'"
  then have d: "data_size m' = n \<and> max_data_size m' = n \<and> n \<noteq> 0"
    by (auto simp: alloc_msg_buffer_def Let_def is_valid_def MsgBuffer_ctor_def
        split: if_splits sum.splits prod.splits)
  show "data_size m' \<noteq> 0" using d by simp
  show "max_data_size m' \<noteq> 0" using d by simp
  show "resize_msg_buffer kMaxDataPerPkt m' 0 = Inr (m'\<lparr>data_size := 0, num_pkts := 1\<rparr>)"
    using a r by blast
qed

text \<open>Claim C10, witness: the four-packet MsgBuffer resized to 0 bytes.\<close>

theorem alloc_msg_buffer_zero_size_witness:
  "alloc_msg_buffer 1024 16 11 alloc_ok () 0 = Inl AssertFail
   \<and> data_size_to_num_pkts 1024 0 = 1
   \<and> resize_msg_buffer 1024 msgbuf_4000 0 = Inr (msgbuf_4000\<lparr>data_size := 0, num_pkts := 1\<rparr>)
   \<and> data_size msgbuf_4000 \<noteq> 0"
proof -
  have v: "is_valid msgbuf_4000" by (simp add: msgbuf_4000_def is_valid_def MsgBuffer_ctor_def)
  have n: "data_size_to_num_pkts 1024 4000 = 4" by (simp add: data_size_to_num_pkts_def)
  have e2: "alloc_msg_buffer 1024 16 11 alloc_ok () 4000 = Inr (msgbuf_4000, ())"
    by (simp add: alloc_msg_buffer_def alloc_ok_def msgbuf_4000_def n)
  note t = alloc_msg_buffer_zero_size [of 1024 16 11 alloc_ok "()" msgbuf_4000 4000 msgbuf_4000 "()"]
  show ?thesis using t v e2 by blast
qed

subsection \<open>In-order reception at the client (claim C1)\<close>

text \<open>
  Claim C1. \<open>in_order_client\<close> returns true (1) exactly when the header's \<open>req_num\<close> is the
  sslot's \<open>cur_req_num\<close>, its \<open>pkt_num\<close> is the sslot's \<open>num_rx\<close>, its \<open>pkt_num\<close> is
  below \<open>num_tx\<close>, and, when pacing is compiled in, \<open>in_wheel[pkt_num mod K]\<close> is false.
  In every other case it returns false (0). The counter \<open>still_in_wheel_during_retx\<close> is
  incremented in the pacing case (the first three conditions hold, pacing is compiled in
  and the in-wheel bit is set) and is left alone in every other case.
\<close>

theorem in_order_client_iff:
  "(fst (in_order_client kCcPacing kSessionCredits stats sslot pkthdr) = 1 \<longleftrightarrow>
      req_num pkthdr = cur_req_num sslot
      \<and> pkt_num pkthdr = num_rx sslot
      \<and> pkt_num pkthdr < num_tx sslot
      \<and> (kCcPacing \<longrightarrow> \<not> in_wheel sslot ! unat (pkt_num pkthdr mod kSessionCredits)))
   \<and> (fst (in_order_client kCcPacing kSessionCredits stats sslot pkthdr) \<noteq> 1 \<longrightarrow>
        fst (in_order_client kCcPacing kSessionCredits stats sslot pkthdr) = 0)
   \<and> snd (in_order_client kCcPacing kSessionCredits stats sslot pkthdr) =
       (if req_num pkthdr = cur_req_num sslot \<and> pkt_num pkthdr = num_rx sslot
           \<and> pkt_num pkthdr < num_tx sslot
           \<and> kCcPacing \<and> in_wheel sslot ! unat (pkt_num pkthdr mod kSessionCredits)
        then stats\<lparr>still_in_wheel_during_retx := still_in_wheel_during_retx stats + 1\<rparr>
        else stats)"
  by (auto simp: in_order_client_def not_le)

text \<open>
  Claim C1, witness: a packet that is in order but whose request packet is still in the
  wheel is dropped and counted with pacing, and accepted without pacing.
\<close>

theorem in_order_client_iff_witness:
  "fst (in_order_client True 8 stats_0 sslot_0 pkthdr_1) = 0
   \<and> still_in_wheel_during_retx (snd (in_order_client True 8 stats_0 sslot_0 pkthdr_1)) = 1
   \<and> fst (in_order_client False 8 stats_0 sslot_0 pkthdr_1) = 1
   \<and> snd (in_order_client False 8 stats_0 sslot_0 pkthdr_1) = stats_0"
proof -
  have w: "in_wheel sslot_0 ! unat (pkt_num pkthdr_1 mod 8)"
    by (simp add: sslot_0_def pkthdr_1_def)
  have c1: "req_num pkthdr_1 = cur_req_num sslot_0" by (simp add: sslot_0_def pkthdr_1_def)
  have c2: "pkt_num pkthdr_1 = num_rx sslot_0" by (simp add: sslot_0_def pkthdr_1_def)
  have c3: "pkt_num pkthdr_1 < num_tx sslot_0" by (simp add: sslot_0_def pkthdr_1_def)
  note paced = in_order_client_iff [of True 8 stats_0 sslot_0 pkthdr_1]
  note unpaced = in_order_client_iff [of False 8 stats_0 sslot_0 pkthdr_1]
  have r1: "fst (in_order_client True 8 stats_0 sslot_0 pkthdr_1) = 0"
    using paced w by blast
  have r2: "snd (in_order_client True 8 stats_0 sslot_0 pkthdr_1)
      = stats_0\<lparr>still_in_wheel_during_retx := still_in_wheel_during_retx stats_0 + 1\<rparr>"
  proof -
    have cond: "req_num pkthdr_1 = cur_req_num sslot_0 \<and> pkt_num pkthdr_1 = num_rx sslot_0
        \<and> pkt_num pkthdr_1 < num_tx sslot_0
        \<and> True \<and> in_wheel sslot_0 ! unat (pkt_num pkthdr_1 mod 8)"
      using w c1 c2 c3 by blast
    show ?thesis
      by (rule trans [OF paced [THEN conjunct2, THEN conjunct2] if_P [OF cond]])
  qed
  have r3: "fst (in_order_client False 8 stats_0 sslot_0 pkthdr_1) = 1"
    using unpaced c1 c2 c3 by blast
  have r4: "snd (in_order_client False 8 stats_0 sslot_0 pkthdr_1) = stats_0"
    using unpaced [THEN conjunct2, THEN conjunct2] by (simp only: simp_thms if_False)
  have r2': "still_in_wheel_during_retx (snd (in_order_client True 8 stats_0 sslot_0 pkthdr_1)) = 1"
    by (simp only: r2) (simp add: stats_0_def)
  show ?thesis using r1 r2' r3 r4 by blast
qed

subsection \<open>Wheel bypass (claim C4)\<close>

text \<open>
  Claim C4, as amended. \<open>can_bypass_wheel\<close> returns true exactly when pacing is not
  compiled in; or, with pacing, in a testing build when the fault switch
  \<open>faults.hard_wheel_bypass\<close> is set; or, with pacing and outside a testing build, when
  the bypass optimisation \<open>kCcOptWheelBypass\<close> is compiled in, the sslot's \<open>wheel_count\<close>
  is 0 and its session is uncongested. In every other case it returns false.
\<close>

theorem can_bypass_wheel_iff:
  "can_bypass_wheel kCcPacing kTesting kCcOptWheelBypass faults is_uncongested sess sslot \<longleftrightarrow>
     \<not> kCcPacing
     \<or> (kCcPacing \<and> kTesting \<and> hard_wheel_bypass faults)
     \<or> (kCcPacing \<and> \<not> kTesting \<and> kCcOptWheelBypass
          \<and> wheel_count sslot = 0 \<and> is_uncongested sess)"
  by (auto simp: can_bypass_wheel_def)

text \<open>Claim C4, witness: one input for each of the three ways to bypass, and two refusals.\<close>

theorem can_bypass_wheel_iff_witness:
  "can_bypass_wheel False False True faults_none never_uncongested session_0 sslot_0
   \<and> can_bypass_wheel True True True faults_hard never_uncongested session_0 sslot_0
   \<and> can_bypass_wheel True False True faults_none always_uncongested session_0 sslot_idle
   \<and> \<not> can_bypass_wheel True False True faults_none always_uncongested session_0 sslot_0
   \<and> \<not> can_bypass_wheel True False False faults_none always_uncongested session_0 sslot_idle"
proof -
  have h: "hard_wheel_bypass faults_hard" "\<not> hard_wheel_bypass faults_none"
    by (simp_all add: faults_hard_def faults_none_def)
  have w: "wheel_count sslot_idle = 0" "wheel_count sslot_0 \<noteq> 0"
    by (simp_all add: sslot_idle_def sslot_0_def)
  have u: "always_uncongested session_0" by (simp add: always_uncongested_def)
  show ?thesis
    using can_bypass_wheel_iff [of False False True faults_none never_uncongested session_0 sslot_0]
      can_bypass_wheel_iff [of True True True faults_hard never_uncongested session_0 sslot_0]
      can_bypass_wheel_iff [of True False True faults_none always_uncongested session_0 sslot_idle]
      can_bypass_wheel_iff [of True False True faults_none always_uncongested session_0 sslot_0]
      can_bypass_wheel_iff [of True False False faults_none always_uncongested session_0 sslot_idle]
      h w u
    by simp
qed

text \<open>
  Claim C4, counterexample to the claim as stated. With pacing in a testing build and
  \<open>hard_wheel_bypass\<close> set, the function returns true for a congested session with a
  packet in the wheel. With pacing outside testing and without \<open>kCcOptWheelBypass\<close>, it
  returns false for an uncongested session with no packet in the wheel.
\<close>

theorem can_bypass_wheel_counterexample:
  "can_bypass_wheel True True True faults_hard never_uncongested session_0 sslot_0
   \<and> \<not> (never_uncongested session_0 \<and> wheel_count sslot_0 = 0)
   \<and> \<not> can_bypass_wheel True False False faults_none always_uncongested session_0 sslot_idle
   \<and> always_uncongested session_0 \<and> wheel_count sslot_idle = 0"
  by (simp add: can_bypass_wheel_def faults_hard_def faults_none_def never_uncongested_def
      always_uncongested_def sslot_idle_def sslot_0_def)

subsection \<open>Returning a credit\<close>

text \<open>
  \<open>bump_credits\<close> succeeds exactly on a client session with fewer than \<open>kSessionCredits\<close>
  credits (its two assertions), and then adds exactly one credit, without wrapping, so
  that the credits stay at or below \<open>kSessionCredits\<close>.
\<close>

lemma bump_credits_effect:
  "bump_credits kSessionCredits sess = Inr sess' \<longleftrightarrow>
     is_client sess \<and> credits sess < kSessionCredits \<and> sess' = sess\<lparr>credits := credits sess + 1\<rparr>"
  by (auto simp: bump_credits_def)

lemma bump_credits_bound:
  assumes "bump_credits kSessionCredits sess = Inr sess'"
  shows "unat (credits sess') = unat (credits sess) + 1 \<and> credits sess' \<le> kSessionCredits"
proof -
  from assms have lt: "credits sess < kSessionCredits"
    and e: "credits sess' = credits sess + 1"
    by (auto simp: bump_credits_effect)
  from lt have "unat (credits sess) + 1 < 2 ^ 64"
    using unsigned_less [of kSessionCredits, where ?'a = nat] by (simp add: word_less_nat_alt)
  then have u: "unat (credits sess + 1) = unat (credits sess) + 1"
    by (simp add: unat_add_lem [THEN iffD1])
  moreover have "credits sess + 1 \<le> kSessionCredits"
    using lt u by (simp add: word_le_nat_alt word_less_nat_alt)
  ultimately show ?thesis using e by simp
qed

subsection \<open>Packet numbers do not alias (claim C8)\<close>

lemma num_pkts_times:
  assumes M: "0 < M" and d: "unat d < 2 ^ 63"
  shows "1 \<le> unat (data_size_to_num_pkts M d)
       \<and> (unat (data_size_to_num_pkts M d) - 1) * unat M \<le> unat d"
proof (cases "d \<le> M")
  case True
  then show ?thesis by (simp add: data_size_to_num_pkts_def)
next
  case False
  then have gt: "unat M < unat d" by (simp add: word_le_nat_alt)
  have Mp: "0 < unat M" using M by (simp add: word_less_nat_alt)
  have nw: "unat d + unat M \<le> 2 ^ 64" using gt d by simp
  have n: "unat (data_size_to_num_pkts M d) = (unat d + unat M - 1) div unat M"
    using data_size_to_num_pkts_nat [OF M nw] Mp gt by (simp add: num_pkts_spec_div)
  have ge: "1 \<le> (unat d + unat M - 1) div unat M"
    using Mp gt by (simp add: Suc_le_eq div_greater_zero_iff)
  define q where "q = (unat d + unat M - 1) div unat M"
  have "q * unat M \<le> unat d + unat M - 1"
    unfolding q_def by (rule div_times_less_eq_dividend)
  moreover have "(q - 1) * unat M = q * unat M - unat M"
    by (simp add: diff_mult_distrib)
  ultimately have "(q - 1) * unat M \<le> unat d" by arith
  then have "((unat d + unat M - 1) div unat M - 1) * unat M \<le> unat d"
    by (simp only: q_def)
  then show ?thesis using n ge by simp
qed


lemma unat_push_bit_1:
  assumes n: "n < 64"
  shows "unat (push_bit n (1 :: size_t)) = 2 ^ n"
proof -
  have a: "(2::nat) ^ n < 2 ^ 64" using n by (intro power_strict_increasing) simp_all
  have "(2 ^ n :: size_t) = of_nat (2 ^ n)" by simp
  then have "unat (2 ^ n :: size_t) = unat (of_nat (2 ^ n) :: size_t)" by simp
  also have "\<dots> = 2 ^ n mod 2 ^ LENGTH(64)" by (rule unat_of_nat)
  also have "\<dots> = 2 ^ n" using a by simp
  finally show ?thesis by (simp add: push_bit_of_1)
qed

lemma static_asserts_nat:
  assumes sa: "static_asserts kMsgSizeBits kPktNumBits kMaxClassSize kMaxDataPerPkt sizeof_pkthdr_t"
    and nw: "unat (kMaxMsgSize kMaxClassSize kMaxDataPerPkt sizeof_pkthdr_t) < 2 ^ 63"
  shows "2 * unat (kMaxMsgSize kMaxClassSize kMaxDataPerPkt sizeof_pkthdr_t)
           < 2 ^ kPktNumBits * unat kMaxDataPerPkt"
    and "unat (kMaxMsgSize kMaxClassSize kMaxDataPerPkt sizeof_pkthdr_t) \<le> 2 ^ kMsgSizeBits"
proof -
  define X where "X = kMaxMsgSize kMaxClassSize kMaxDataPerPkt sizeof_pkthdr_t"
  have bm: "kMsgSizeBits < 64" and bp: "kPktNumBits < 64"
    and le: "X \<le> push_bit kMsgSizeBits 1"
    and lt: "2 * X < push_bit kPktNumBits 1 * kMaxDataPerPkt"
    using sa by (simp_all add: static_asserts_def X_def)
  have X: "unat X < 2 ^ 63" using nw by (simp add: X_def)
  have "unat (2 :: size_t) * unat X < 2 ^ LENGTH(64)" using X by simp
  then have "unat (2 * X) = unat (2 :: size_t) * unat X"
    by (simp only: unat_mult_lem)
  then have two: "unat (2 * X) = 2 * unat X" by simp
  have "unat (push_bit kPktNumBits 1 * kMaxDataPerPkt)
      \<le> unat (push_bit kPktNumBits (1 :: size_t)) * unat kMaxDataPerPkt"
    by (simp add: unat_word_ariths)
  then have "unat (push_bit kPktNumBits 1 * kMaxDataPerPkt) \<le> 2 ^ kPktNumBits * unat kMaxDataPerPkt"
    by (simp only: unat_push_bit_1 [OF bp])
  moreover have "unat (2 * X) < unat (push_bit kPktNumBits 1 * kMaxDataPerPkt)"
    using lt by (simp only: word_less_nat_alt)
  ultimately have "2 * unat X < 2 ^ kPktNumBits * unat kMaxDataPerPkt"
    using two by linarith
  then show "2 * unat (kMaxMsgSize kMaxClassSize kMaxDataPerPkt sizeof_pkthdr_t)
           < 2 ^ kPktNumBits * unat kMaxDataPerPkt"
    by (simp only: X_def)
  have "unat X \<le> unat (push_bit kMsgSizeBits (1 :: size_t))"
    using le by (simp only: word_le_nat_alt)
  then have "unat X \<le> 2 ^ kMsgSizeBits" by (simp only: unat_push_bit_1 [OF bm])
  then show "unat (kMaxMsgSize kMaxClassSize kMaxDataPerPkt sizeof_pkthdr_t) \<le> 2 ^ kMsgSizeBits"
    by (simp only: X_def)
qed

lemma wire_pkts_bound:
  assumes sa: "static_asserts kMsgSizeBits kPktNumBits kMaxClassSize kMaxDataPerPkt sizeof_pkthdr_t"
    and nw: "unat (kMaxMsgSize kMaxClassSize kMaxDataPerPkt sizeof_pkthdr_t) < 2 ^ 63"
    and rq: "data_size req_msgbuf \<le> kMaxMsgSize kMaxClassSize kMaxDataPerPkt sizeof_pkthdr_t"
    and rqn: "num_pkts req_msgbuf = data_size_to_num_pkts kMaxDataPerPkt (data_size req_msgbuf)"
    and rs: "data_size rsp_msgbuf \<le> kMaxMsgSize kMaxClassSize kMaxDataPerPkt sizeof_pkthdr_t"
    and rsn: "num_pkts rsp_msgbuf = data_size_to_num_pkts kMaxDataPerPkt (data_size rsp_msgbuf)"
  shows "unat (wire_pkts req_msgbuf rsp_msgbuf) \<le> 2 ^ kPktNumBits"
proof -
  define X where "X = unat (kMaxMsgSize kMaxClassSize kMaxDataPerPkt sizeof_pkthdr_t)"
  define M where "M = unat kMaxDataPerPkt"
  define a where "a = unat (num_pkts req_msgbuf)"
  define b where "b = unat (num_pkts rsp_msgbuf)"
  have Mw: "0 < kMaxDataPerPkt" using sa by (simp add: static_asserts_def word_greater_zero_iff)
  have bp: "kPktNumBits < 64" using sa by (simp add: static_asserts_def)
  have X: "X < 2 ^ 63" using nw by (simp add: X_def)
  have dq: "unat (data_size req_msgbuf) \<le> X" using rq by (simp add: X_def word_le_nat_alt)
  have ds: "unat (data_size rsp_msgbuf) \<le> X" using rs by (simp add: X_def word_le_nat_alt)
  have "1 \<le> a \<and> (a - 1) * M \<le> unat (data_size req_msgbuf)"
    unfolding a_def M_def rqn using Mw dq X by (intro num_pkts_times) simp_all
  then have a: "1 \<le> a" "(a - 1) * M \<le> X" using dq by simp_all
  have "1 \<le> b \<and> (b - 1) * M \<le> unat (data_size rsp_msgbuf)"
    unfolding b_def M_def rsn using Mw ds X by (intro num_pkts_times) simp_all
  then have b: "1 \<le> b" "(b - 1) * M \<le> X" using ds by simp_all
  have lt: "2 * X < 2 ^ kPktNumBits * M"
    unfolding X_def M_def using sa nw by (rule static_asserts_nat)
  have "(a - 1 + (b - 1)) * M = (a - 1) * M + (b - 1) * M" by (rule add_mult_distrib)
  then have "(a - 1 + (b - 1)) * M \<le> 2 * X" using a(2) b(2) by linarith
  then have "(a - 1 + (b - 1)) * M < 2 ^ kPktNumBits * M" using lt by linarith
  then have "a - 1 + (b - 1) < 2 ^ kPktNumBits" by (rule mult_less_cancel2 [THEN iffD1, THEN conjunct2])
  then have ab: "a + b - 1 \<le> 2 ^ kPktNumBits" using a(1) b(1) by linarith
  have p: "(2::nat) ^ kPktNumBits \<le> 2 ^ 63" using bp by (intro power_increasing) simp_all
  have "a + b < 2 ^ LENGTH(64)" using ab p by simp
  then have "unat (num_pkts req_msgbuf + num_pkts rsp_msgbuf) = a + b"
    unfolding a_def b_def by (simp only: unat_add_lem)
  moreover have "num_pkts req_msgbuf + num_pkts rsp_msgbuf \<noteq> 0"
    using calculation a by (simp add: unat_eq_0 [symmetric] del: unat_eq_0)
  ultimately have "unat (num_pkts req_msgbuf + num_pkts rsp_msgbuf - 1) = a + b - 1"
    by (simp add: unat_minus_one)
  then show ?thesis using ab by (simp add: wire_pkts_def)
qed


lemma pkt_num_field_id:
  assumes bp: "kPktNumBits < 64" and i: "unat i < 2 ^ kPktNumBits"
  shows "pkt_num_field kPktNumBits i = i"
proof -
  have "unat i < unat (push_bit kPktNumBits (1 :: size_t))"
    using i by (simp only: unat_push_bit_1 [OF bp])
  then have "i < 2 ^ kPktNumBits" by (simp add: word_less_nat_alt push_bit_of_1)
  then show ?thesis
    unfolding pkt_num_field_def by (simp add: take_bit_eq_mask less_mask_eq)
qed

text \<open>
  Claim C8. Take any constants for which the two \<open>static_assert\<close>s of \<open>rpc.h\<close> pass, with
  \<open>kMaxMsgSize\<close> computed as \<open>rpc.h\<close> computes it and below \<open>2^63\<close> (so that the asserted
  \<open>2 * kMaxMsgSize\<close> is not a wrapped value). Then the two inequalities hold over the
  natural numbers: \<open>2 * kMaxMsgSize < 2^kPktNumBits * kMaxDataPerPkt\<close> and
  \<open>kMaxMsgSize \<le> 2^kMsgSizeBits\<close>. And packet numbers never alias within one RPC: for a
  request and a response of at most \<open>kMaxMsgSize\<close> bytes each, the RPC puts at most
  \<open>2^kPktNumBits\<close> packets on the wire (\<open>wire_pkts\<close>), and two packet numbers below
  \<open>wire_pkts\<close> with the same \<open>kPktNumBits\<close>-bit header field are equal.
\<close>

theorem static_asserts_no_alias:
  assumes sa: "static_asserts kMsgSizeBits kPktNumBits kMaxClassSize kMaxDataPerPkt sizeof_pkthdr_t"
    and nw: "unat (kMaxMsgSize kMaxClassSize kMaxDataPerPkt sizeof_pkthdr_t) < 2 ^ 63"
    and rq: "data_size req_msgbuf \<le> kMaxMsgSize kMaxClassSize kMaxDataPerPkt sizeof_pkthdr_t"
    and rqn: "num_pkts req_msgbuf = data_size_to_num_pkts kMaxDataPerPkt (data_size req_msgbuf)"
    and rs: "data_size rsp_msgbuf \<le> kMaxMsgSize kMaxClassSize kMaxDataPerPkt sizeof_pkthdr_t"
    and rsn: "num_pkts rsp_msgbuf = data_size_to_num_pkts kMaxDataPerPkt (data_size rsp_msgbuf)"
  shows "2 * unat (kMaxMsgSize kMaxClassSize kMaxDataPerPkt sizeof_pkthdr_t)
           < 2 ^ kPktNumBits * unat kMaxDataPerPkt
       \<and> unat (kMaxMsgSize kMaxClassSize kMaxDataPerPkt sizeof_pkthdr_t) \<le> 2 ^ kMsgSizeBits
       \<and> unat (wire_pkts req_msgbuf rsp_msgbuf) \<le> 2 ^ kPktNumBits
       \<and> (\<forall>i j. i < wire_pkts req_msgbuf rsp_msgbuf \<and> j < wire_pkts req_msgbuf rsp_msgbuf
              \<and> pkt_num_field kPktNumBits i = pkt_num_field kPktNumBits j \<longrightarrow> i = j)"
proof (intro conjI allI impI)
  show "2 * unat (kMaxMsgSize kMaxClassSize kMaxDataPerPkt sizeof_pkthdr_t)
           < 2 ^ kPktNumBits * unat kMaxDataPerPkt"
    using sa nw by (rule static_asserts_nat(1))
  show "unat (kMaxMsgSize kMaxClassSize kMaxDataPerPkt sizeof_pkthdr_t) \<le> 2 ^ kMsgSizeBits"
    using sa nw by (rule static_asserts_nat(2))
  show w: "unat (wire_pkts req_msgbuf rsp_msgbuf) \<le> 2 ^ kPktNumBits"
    using assms by (rule wire_pkts_bound)
  fix i j
  assume h: "i < wire_pkts req_msgbuf rsp_msgbuf \<and> j < wire_pkts req_msgbuf rsp_msgbuf
              \<and> pkt_num_field kPktNumBits i = pkt_num_field kPktNumBits j"
  have bp: "kPktNumBits < 64" using sa by (simp add: static_asserts_def)
  have "unat i < 2 ^ kPktNumBits" "unat j < 2 ^ kPktNumBits"
    using h w by (simp_all add: word_less_nat_alt)
  then have fi: "pkt_num_field kPktNumBits i = i" and fj: "pkt_num_field kPktNumBits j = j"
    using bp by (simp_all add: pkt_num_field_id)
  have e: "pkt_num_field kPktNumBits i = pkt_num_field kPktNumBits j" using h by blast
  show "i = j" by (rule trans [OF fi [symmetric] trans [OF e fj]])
qed

text \<open>
  Claim C8, witness: 24 message-size bits, 14 packet-number bits, an 8 MB allocation class,
  1024 data bytes per packet and 16-byte headers; request and response of 4000 bytes.
\<close>

theorem static_asserts_no_alias_witness:
  "static_asserts 24 14 8388608 1024 16
   \<and> kMaxMsgSize 8388608 1024 16 = 8257536
   \<and> 2 * unat (kMaxMsgSize 8388608 1024 16) < 2 ^ 14 * unat (1024 :: size_t)
   \<and> unat (kMaxMsgSize 8388608 1024 16) \<le> 2 ^ 24
   \<and> unat (wire_pkts msgbuf_4000 msgbuf_4000) \<le> 2 ^ 14
   \<and> pkt_num_field 14 3 \<noteq> pkt_num_field 14 5"
proof -
  have k: "kMaxMsgSize 8388608 1024 16 = 8257536" by (simp add: kMaxMsgSize_def)
  have sa: "static_asserts 24 14 8388608 1024 16"
    by (simp add: static_asserts_def k)
  have nw: "unat (kMaxMsgSize 8388608 1024 16) < 2 ^ 63" by (simp add: k)
  have d: "data_size msgbuf_4000 \<le> kMaxMsgSize 8388608 1024 16"
    by (simp add: k msgbuf_4000_def MsgBuffer_ctor_def)
  have n: "num_pkts msgbuf_4000 = data_size_to_num_pkts 1024 (data_size msgbuf_4000)"
    by (simp add: msgbuf_4000_def MsgBuffer_ctor_def data_size_to_num_pkts_def)
  note t = static_asserts_no_alias [OF sa nw d n d n]
  have w: "wire_pkts msgbuf_4000 msgbuf_4000 = 7"
    by (simp add: wire_pkts_def msgbuf_4000_def MsgBuffer_ctor_def)
  have "(3 :: size_t) < wire_pkts msgbuf_4000 msgbuf_4000"
    "(5 :: size_t) < wire_pkts msgbuf_4000 msgbuf_4000" "(3 :: size_t) \<noteq> 5"
    by (simp_all add: w)
  then have a: "pkt_num_field 14 3 \<noteq> pkt_num_field 14 5" using t by blast
  show ?thesis using sa k t a by blast
qed

subsection \<open>Releasing a response in the dispatch thread (claim C9)\<close>

lemma get_session_lt: "get_session r sn = Some s \<Longrightarrow> sn < length (session_vec r)"
  by (simp add: get_session_def split: if_splits)

lemma get_put_session:
  "sn < length (session_vec r) \<Longrightarrow> get_session (put_session r sn s) sn = Some s"
  by (simp add: get_session_def put_session_def)

lemma put_put_session:
  "put_session (put_session r sn s) sn s' = put_session r sn s'"
  by (simp add: put_session_def)

lemma length_put_session [simp]:
  "length (session_vec (put_session r sn s)) = length (session_vec r)"
  by (simp add: put_session_def)

lemma active_put_session [simp]: "active_rpcs (put_session r sn s) = active_rpcs r"
  by (simp add: put_session_def)

lemma enqueue_request_backlog:
  assumes gs: "get_session r sn = Some sess" and cl: "is_client sess" and co: "is_connected sess"
    and fr: "sslot_free_vec sess = []" and an: "a_session_num args = int sn"
  shows "enqueue_request K r args
           = Inr (put_session r sn (sess\<lparr>enq_req_backlog := enq_req_backlog sess @ [args]\<rparr>))"
  using assms get_session_lt [OF gs]
  by (simp add: enqueue_request_def is_usr_session_num_in_range_st_def Let_def)

lemma enqueue_request_issue:
  assumes gs: "get_session r sn = Some sess" and cl: "is_client sess" and co: "is_connected sess"
    and fr: "sslot_free_vec sess = fs @ [i]" and an: "a_session_num args = int sn"
    and ir: "unat i < length (sslot_arr sess)"
  shows "enqueue_request K r args
           = Inr (add_to_active_rpc_list
                   (put_session r sn
                     (sess\<lparr>sslot_free_vec := fs,
                           sslot_arr := (sslot_arr sess)[unat i :=
                             (sslot_arr sess ! unat i)
                               \<lparr>cur_req_num := cur_req_num (sslot_arr sess ! unat i) + K,
                                tx_msgbuf := a_req_msgbuf args,
                                resp_msgbuf := a_resp_msgbuf args,
                                cont_func := a_cont_func args,
                                tag := a_tag args,
                                cont_etid := a_cont_etid args,
                                num_tx := 0, num_rx := 0\<rparr>]\<rparr>))
                   (sn, unat i))"
  using assms get_session_lt [OF gs]
  by (simp add: enqueue_request_def is_usr_session_num_in_range_st_def Let_def)


lemma release_response_no_backlog:
  assumes hs: "get_sslot r resp_handle = Some sslot"
    and tx: "tx_msgbuf sslot = None"
    and sp: "session sslot = Some sn"
    and gs: "get_session r sn = Some sess"
    and cl: "is_client sess"
    and bl: "enq_req_backlog sess = []"
  shows "release_response K True r resp_handle
           = Inr (put_session r sn (sess\<lparr>sslot_free_vec := sslot_free_vec sess @ [index sslot]\<rparr>))"
  using assms by (simp add: release_response_def Let_def)

lemma release_response_backlog:
  fixes K :: size_t
  assumes hs: "get_sslot r resp_handle = Some sslot"
    and tx: "tx_msgbuf sslot = None"
    and sp: "session sslot = Some sn"
    and gs: "get_session r sn = Some sess"
    and cl: "is_client sess"
    and bl: "enq_req_backlog sess = args # rest"
    and fr: "sslot_free_vec sess = []"
    and an: "a_session_num args = int sn"
    and co: "is_connected sess"
    and ir: "unat (index sslot) < length (sslot_arr sess)"
  defines "i \<equiv> unat (index sslot)"
  defines "r1 \<equiv> put_session r sn (sess\<lparr>sslot_free_vec := [index sslot]\<rparr>)"
  defines "sess2 \<equiv> sess\<lparr>sslot_free_vec := [],
                        sslot_arr := (sslot_arr sess)[i :=
                          (sslot_arr sess ! i)
                            \<lparr>cur_req_num := cur_req_num (sslot_arr sess ! i) + K,
                             tx_msgbuf := a_req_msgbuf args,
                             resp_msgbuf := a_resp_msgbuf args,
                             cont_func := a_cont_func args,
                             tag := a_tag args,
                             cont_etid := a_cont_etid args,
                             num_tx := 0, num_rx := 0\<rparr>]\<rparr>"
  shows "enqueue_request K r1 args = Inr (add_to_active_rpc_list (put_session r sn sess2) (sn, i))"
    and "release_response K True r resp_handle
           = Inr (add_to_active_rpc_list
                    (put_session r sn (sess2\<lparr>enq_req_backlog := rest\<rparr>)) (sn, i))"
proof -
  have lt: "sn < length (session_vec r)" using gs by (rule get_session_lt)
  let ?sess1 = "sess\<lparr>sslot_free_vec := [index sslot]\<rparr>"
  have g1: "get_session r1 sn = Some ?sess1"
    unfolding r1_def using lt by (rule get_put_session)
  have e: "enqueue_request K r1 args
      = Inr (add_to_active_rpc_list (put_session r1 sn sess2) (sn, i))"
    using enqueue_request_issue [OF g1, of "[]" "index sslot" args K] cl co an ir
    by (simp add: is_client_def is_connected_def sess2_def i_def)
  then show e': "enqueue_request K r1 args
      = Inr (add_to_active_rpc_list (put_session r sn sess2) (sn, i))"
    by (simp add: r1_def put_put_session)
  have g2: "get_session (add_to_active_rpc_list (put_session r sn sess2) (sn, i)) sn = Some sess2"
    using lt by (simp add: add_to_active_rpc_list_def get_session_def put_session_def)
  have p: "put_session (add_to_active_rpc_list (put_session r sn sess2) (sn, i)) sn s
      = add_to_active_rpc_list (put_session r sn s) (sn, i)" for s
    by (simp add: add_to_active_rpc_list_def put_session_def)
  have bl2: "enq_req_backlog sess2 = args # rest" by (simp add: sess2_def bl)
  show "release_response K True r resp_handle
           = Inr (add_to_active_rpc_list
                    (put_session r sn (sess2\<lparr>enq_req_backlog := rest\<rparr>)) (sn, i))"
    using hs tx sp gs cl bl fr e' [unfolded r1_def] g2 p bl2
    by (simp add: release_response_def Let_def)
qed


text \<open>
  Claim C9. Let \<open>release_response\<close> run in the dispatch thread on a session slot whose
  \<open>tx_msgbuf\<close> is null and whose session is a client session (the function's assertions).
  It pushes the slot's \<open>index\<close> onto the session's free-slot stack. With an empty backlog
  nothing else changes. With a backlog \<open>args # rest\<close> (whose entries were queued for this
  session, the session being connected and having had no free slot), it calls
  \<open>enqueue_request\<close> with the front entry \<open>args\<close>, on the state with the index pushed;
  \<open>enqueue_request\<close> leaves the backlog alone, and \<open>release_response\<close> then removes exactly
  that front entry. Afterwards the backlog is \<open>rest\<close>, the free-slot stack is empty again,
  the released slot carries the request \<open>args\<close>, and the slot is the last of the active
  RPCs. The oldest backlogged request is the one launched.
\<close>

theorem release_response_dispatch:
  fixes K :: size_t
  assumes hs: "get_sslot r resp_handle = Some sslot"
    and tx: "tx_msgbuf sslot = None"
    and sp: "session sslot = Some sn"
    and gs: "get_session r sn = Some sess"
    and cl: "is_client sess"
  shows "(enq_req_backlog sess = [] \<longrightarrow>
            release_response K True r resp_handle
              = Inr (put_session r sn
                      (sess\<lparr>sslot_free_vec := sslot_free_vec sess @ [index sslot]\<rparr>)))
       \<and> (\<forall>args rest.
             enq_req_backlog sess = args # rest \<and> sslot_free_vec sess = []
             \<and> a_session_num args = int sn \<and> is_connected sess
             \<and> unat (index sslot) < length (sslot_arr sess) \<longrightarrow>
             (\<exists>r2 sess2 r' sess'.
                enqueue_request K
                    (put_session r sn
                      (sess\<lparr>sslot_free_vec := sslot_free_vec sess @ [index sslot]\<rparr>)) args
                  = Inr r2
                \<and> get_session r2 sn = Some sess2
                \<and> enq_req_backlog sess2 = args # rest
                \<and> r' = put_session r2 sn (sess2\<lparr>enq_req_backlog := rest\<rparr>)
                \<and> release_response K True r resp_handle = Inr r'
                \<and> get_session r' sn = Some sess'
                \<and> enq_req_backlog sess' = rest
                \<and> sslot_free_vec sess' = []
                \<and> tx_msgbuf (sslot_arr sess' ! unat (index sslot)) = a_req_msgbuf args
                \<and> resp_msgbuf (sslot_arr sess' ! unat (index sslot)) = a_resp_msgbuf args
                \<and> cont_func (sslot_arr sess' ! unat (index sslot)) = a_cont_func args
                \<and> tag (sslot_arr sess' ! unat (index sslot)) = a_tag args
                \<and> cont_etid (sslot_arr sess' ! unat (index sslot)) = a_cont_etid args
                \<and> active_rpcs r' = active_rpcs r @ [(sn, unat (index sslot))]))"
proof (intro conjI allI impI)
  assume "enq_req_backlog sess = []"
  with hs tx sp gs cl
  show "release_response K True r resp_handle
          = Inr (put_session r sn (sess\<lparr>sslot_free_vec := sslot_free_vec sess @ [index sslot]\<rparr>))"
    by (rule release_response_no_backlog)
next
  fix args rest
  assume a: "enq_req_backlog sess = args # rest \<and> sslot_free_vec sess = []
             \<and> a_session_num args = int sn \<and> is_connected sess
             \<and> unat (index sslot) < length (sslot_arr sess)"
  then have bl: "enq_req_backlog sess = args # rest" and fr: "sslot_free_vec sess = []"
    and an: "a_session_num args = int sn" and co: "is_connected sess"
    and ir: "unat (index sslot) < length (sslot_arr sess)"
    by simp_all
  define i where "i = unat (index sslot)"
  define sess2 where "sess2 = sess\<lparr>sslot_free_vec := [],
                        sslot_arr := (sslot_arr sess)[i :=
                          (sslot_arr sess ! i)
                            \<lparr>cur_req_num := cur_req_num (sslot_arr sess ! i) + K,
                             tx_msgbuf := a_req_msgbuf args,
                             resp_msgbuf := a_resp_msgbuf args,
                             cont_func := a_cont_func args,
                             tag := a_tag args,
                             cont_etid := a_cont_etid args,
                             num_tx := 0, num_rx := 0\<rparr>]\<rparr>"
  define r2 where "r2 = add_to_active_rpc_list (put_session r sn sess2) (sn, i)"
  define sess' where "sess' = sess2\<lparr>enq_req_backlog := rest\<rparr>"
  define r' where "r' = add_to_active_rpc_list (put_session r sn sess') (sn, i)"
  have lt: "sn < length (session_vec r)" using gs by (rule get_session_lt)
  note rb = release_response_backlog [OF hs tx sp gs cl bl fr an co ir, of K]
  have e: "enqueue_request K
             (put_session r sn (sess\<lparr>sslot_free_vec := sslot_free_vec sess @ [index sslot]\<rparr>)) args
           = Inr r2"
    using rb(1) by (simp add: fr r2_def sess2_def i_def)
  have rr: "release_response K True r resp_handle = Inr r'"
    using rb(2) by (simp add: r'_def sess'_def sess2_def i_def)
  have g2: "get_session r2 sn = Some sess2"
    using lt by (simp add: r2_def add_to_active_rpc_list_def get_session_def put_session_def)
  have g': "get_session r' sn = Some sess'"
    using lt by (simp add: r'_def add_to_active_rpc_list_def get_session_def put_session_def)
  have p: "r' = put_session r2 sn (sess2\<lparr>enq_req_backlog := rest\<rparr>)"
    by (simp add: r'_def r2_def sess'_def add_to_active_rpc_list_def put_session_def)
  have b2: "enq_req_backlog sess2 = args # rest" by (simp add: sess2_def bl)
  have f: "enq_req_backlog sess' = rest" "sslot_free_vec sess' = []"
    by (simp_all add: sess'_def sess2_def)
  have s: "sslot_arr sess' ! unat (index sslot) =
      (sslot_arr sess ! i)
         \<lparr>cur_req_num := cur_req_num (sslot_arr sess ! i) + K,
          tx_msgbuf := a_req_msgbuf args,
          resp_msgbuf := a_resp_msgbuf args,
          cont_func := a_cont_func args,
          tag := a_tag args,
          cont_etid := a_cont_etid args,
          num_tx := 0, num_rx := 0\<rparr>"
    using ir by (simp add: sess'_def sess2_def i_def)
  have ac: "active_rpcs r' = active_rpcs r @ [(sn, unat (index sslot))]"
    by (simp add: r'_def add_to_active_rpc_list_def i_def)
  show "\<exists>r2 sess2 r' sess'.
                enqueue_request K
                    (put_session r sn
                      (sess\<lparr>sslot_free_vec := sslot_free_vec sess @ [index sslot]\<rparr>)) args
                  = Inr r2
                \<and> get_session r2 sn = Some sess2
                \<and> enq_req_backlog sess2 = args # rest
                \<and> r' = put_session r2 sn (sess2\<lparr>enq_req_backlog := rest\<rparr>)
                \<and> release_response K True r resp_handle = Inr r'
                \<and> get_session r' sn = Some sess'
                \<and> enq_req_backlog sess' = rest
                \<and> sslot_free_vec sess' = []
                \<and> tx_msgbuf (sslot_arr sess' ! unat (index sslot)) = a_req_msgbuf args
                \<and> resp_msgbuf (sslot_arr sess' ! unat (index sslot)) = a_resp_msgbuf args
                \<and> cont_func (sslot_arr sess' ! unat (index sslot)) = a_cont_func args
                \<and> tag (sslot_arr sess' ! unat (index sslot)) = a_tag args
                \<and> cont_etid (sslot_arr sess' ! unat (index sslot)) = a_cont_etid args
                \<and> active_rpcs r' = active_rpcs r @ [(sn, unat (index sslot))]"
    apply (rule exI [of _ r2], rule exI [of _ sess2], rule exI [of _ r'], rule exI [of _ sess'])
    using e g2 b2 p rr g' f ac by (simp add: s)
qed

text \<open>
  Claim C9, witness: the one-slot client session, released once without a backlog and once
  with the backlog \<open>[args_1, args_2]\<close>.
\<close>

theorem release_response_dispatch_witness:
  "release_response 8 True rpc_nb (0, 0)
     = Inr (put_session rpc_nb 0 (session_nb\<lparr>sslot_free_vec := [0]\<rparr>))
   \<and> (\<exists>r' sess'. release_response 8 True rpc_bl (0, 0) = Inr r'
         \<and> get_session r' 0 = Some sess'
         \<and> enq_req_backlog sess' = [args_2]
         \<and> sslot_free_vec sess' = []
         \<and> tag (sslot_arr sess' ! 0) = 1
         \<and> active_rpcs r' = [(0, 0)])"
proof -
  have sd: "tx_msgbuf sslot_done = None" "session sslot_done = Some 0" "index sslot_done = 0"
    by (simp_all add: sslot_done_def sslot_idle_def sslot_0_def)
  have nb: "get_sslot rpc_nb (0, 0) = Some sslot_done" "get_session rpc_nb 0 = Some session_nb"
    "is_client session_nb" "enq_req_backlog session_nb = []" "sslot_free_vec session_nb = []"
    by (simp_all add: get_sslot_def get_session_def rpc_nb_def session_nb_def session_0_def
        is_client_def)
  have bl: "get_sslot rpc_bl (0, 0) = Some sslot_done" "get_session rpc_bl 0 = Some session_bl"
    "is_client session_bl" "enq_req_backlog session_bl = args_1 # [args_2]"
    "sslot_free_vec session_bl = []" "is_connected session_bl"
    "unat (index sslot_done) < length (sslot_arr session_bl)"
    "a_session_num args_1 = int 0" "a_tag args_1 = 1"
    "active_rpcs rpc_bl = []"
    by (simp_all add: get_sslot_def get_session_def rpc_bl_def session_bl_def session_nb_def
        session_0_def is_client_def is_connected_def sd args_1_def)
  note t1 = release_response_dispatch [OF nb(1) sd(1) sd(2) nb(2) nb(3), of 8]
  note t2 = release_response_dispatch [OF bl(1) sd(1) sd(2) bl(2) bl(3), of 8]
  have w1: "release_response 8 True rpc_nb (0, 0)
     = Inr (put_session rpc_nb 0 (session_nb\<lparr>sslot_free_vec := [0]\<rparr>))"
    using t1 nb(4) nb(5) sd(3) by simp
  have "\<exists>r2 sess2 r' sess'.
                enqueue_request 8
                    (put_session rpc_bl 0
                      (session_bl\<lparr>sslot_free_vec := sslot_free_vec session_bl @ [index sslot_done]\<rparr>)) args_1
                  = Inr r2
                \<and> get_session r2 0 = Some sess2
                \<and> enq_req_backlog sess2 = args_1 # [args_2]
                \<and> r' = put_session r2 0 (sess2\<lparr>enq_req_backlog := [args_2]\<rparr>)
                \<and> release_response 8 True rpc_bl (0, 0) = Inr r'
                \<and> get_session r' 0 = Some sess'
                \<and> enq_req_backlog sess' = [args_2]
                \<and> sslot_free_vec sess' = []
                \<and> tx_msgbuf (sslot_arr sess' ! unat (index sslot_done)) = a_req_msgbuf args_1
                \<and> resp_msgbuf (sslot_arr sess' ! unat (index sslot_done)) = a_resp_msgbuf args_1
                \<and> cont_func (sslot_arr sess' ! unat (index sslot_done)) = a_cont_func args_1
                \<and> tag (sslot_arr sess' ! unat (index sslot_done)) = a_tag args_1
                \<and> cont_etid (sslot_arr sess' ! unat (index sslot_done)) = a_cont_etid args_1
                \<and> active_rpcs r' = active_rpcs rpc_bl @ [(0, unat (index sslot_done))]"
    using t2 [THEN conjunct2, rule_format, of args_1 "[args_2]"] bl by blast
  then have w2: "\<exists>r' sess'. release_response 8 True rpc_bl (0, 0) = Inr r'
         \<and> get_session r' 0 = Some sess'
         \<and> enq_req_backlog sess' = [args_2]
         \<and> sslot_free_vec sess' = []
         \<and> tag (sslot_arr sess' ! 0) = 1
         \<and> active_rpcs r' = [(0, 0)]"
    using sd(3) bl(9) bl(10) by (metis append_Nil unat_0)
  show ?thesis using w1 w2 by blast
qed

text \<open>
  First in, first out. Let a connected client session have no free slot and a backlog of
  requests queued for it, and let the dispatch thread release distinct slots of the
  session, as many as the backlog is long at most, each with a null \<open>tx_msgbuf\<close>. Then
  every release succeeds; the \<open>j\<close>-th released slot carries the \<open>j\<close>-th request of the
  backlog; the slots join the active RPCs in the order of their release; and what is left
  of the backlog is its remainder, in its order.
\<close>

lemma release_response_fifo:
  fixes K :: size_t
  assumes gs: "get_session r sn = Some sess"
    and cl: "is_client sess" and co: "is_connected sess"
    and fr: "sslot_free_vec sess = []"
    and bl: "\<forall>a \<in> set (enq_req_backlog sess). a_session_num a = int sn"
    and di: "distinct idxs"
    and sl: "\<forall>i \<in> set idxs. i < length (sslot_arr sess)
               \<and> tx_msgbuf (sslot_arr sess ! i) = None
               \<and> session (sslot_arr sess ! i) = Some sn
               \<and> unat (index (sslot_arr sess ! i)) = i"
    and le: "length idxs \<le> length (enq_req_backlog sess)"
  shows "\<exists>r' sess'.
           release_all K r (map (Pair sn) idxs) = Inr r'
           \<and> get_session r' sn = Some sess'
           \<and> enq_req_backlog sess' = drop (length idxs) (enq_req_backlog sess)
           \<and> sslot_free_vec sess' = []
           \<and> active_rpcs r' = active_rpcs r @ map (Pair sn) idxs
           \<and> length (sslot_arr sess') = length (sslot_arr sess)
           \<and> (\<forall>i. i \<notin> set idxs \<longrightarrow> sslot_arr sess' ! i = sslot_arr sess ! i)
           \<and> (\<forall>j < length idxs.
                 tx_msgbuf (sslot_arr sess' ! (idxs ! j)) = a_req_msgbuf (enq_req_backlog sess ! j)
                 \<and> resp_msgbuf (sslot_arr sess' ! (idxs ! j)) = a_resp_msgbuf (enq_req_backlog sess ! j)
                 \<and> cont_func (sslot_arr sess' ! (idxs ! j)) = a_cont_func (enq_req_backlog sess ! j)
                 \<and> tag (sslot_arr sess' ! (idxs ! j)) = a_tag (enq_req_backlog sess ! j))"
  using assms
proof (induction idxs arbitrary: r sess)
  case Nil
  then show ?case by simp
next
  case (Cons i idxs)
  from Cons.prems(8) obtain a rest where bl: "enq_req_backlog sess = a # rest"
    by (cases "enq_req_backlog sess") simp_all
  let ?sslot = "sslot_arr sess ! i"
  have i: "i < length (sslot_arr sess)" "tx_msgbuf ?sslot = None" "session ?sslot = Some sn"
    "unat (index ?sslot) = i"
    using Cons.prems(7) by simp_all
  have lt: "sn < length (session_vec r)" using Cons.prems(1) by (rule get_session_lt)
  have hs: "get_sslot r (sn, i) = Some ?sslot"
    using Cons.prems(1) i(1) by (simp add: get_sslot_def)
  have an: "a_session_num a = int sn" using Cons.prems(5) bl by simp
  have ir: "unat (index ?sslot) < length (sslot_arr sess)" using i by simp
  define sess1 where "sess1 = sess\<lparr>sslot_free_vec := [],
                        sslot_arr := (sslot_arr sess)[i :=
                          (sslot_arr sess ! i)
                            \<lparr>cur_req_num := cur_req_num (sslot_arr sess ! i) + K,
                             tx_msgbuf := a_req_msgbuf a,
                             resp_msgbuf := a_resp_msgbuf a,
                             cont_func := a_cont_func a,
                             tag := a_tag a,
                             cont_etid := a_cont_etid a,
                             num_tx := 0, num_rx := 0\<rparr>],
                        enq_req_backlog := rest\<rparr>"
  define r1 where "r1 = add_to_active_rpc_list (put_session r sn sess1) (sn, i)"
  have rr: "release_response K True r (sn, i) = Inr r1"
    using release_response_backlog(2) [OF hs i(2) i(3) Cons.prems(1) Cons.prems(2) bl
        Cons.prems(4) an Cons.prems(3) ir, of K]
    by (simp add: r1_def sess1_def i(4))
  have g1: "get_session r1 sn = Some sess1"
    using lt by (simp add: r1_def add_to_active_rpc_list_def get_session_def put_session_def)
  have p1: "is_client sess1" "is_connected sess1" "sslot_free_vec sess1 = []"
    "enq_req_backlog sess1 = rest" "length (sslot_arr sess1) = length (sslot_arr sess)"
    using Cons.prems(2,3) by (simp_all add: sess1_def is_client_def is_connected_def)
  have b1: "\<forall>a \<in> set (enq_req_backlog sess1). a_session_num a = int sn"
    using Cons.prems(5) bl p1(4) by simp
  have d1: "distinct idxs" and ni: "i \<notin> set idxs" using Cons.prems(6) by simp_all
  have same: "sslot_arr sess1 ! j = sslot_arr sess ! j" if "j \<noteq> i" for j
    using that by (simp add: sess1_def)
  have s1: "\<forall>j \<in> set idxs. j < length (sslot_arr sess1)
               \<and> tx_msgbuf (sslot_arr sess1 ! j) = None
               \<and> session (sslot_arr sess1 ! j) = Some sn
               \<and> unat (index (sslot_arr sess1 ! j)) = j"
  proof
    fix j assume j: "j \<in> set idxs"
    then have "j \<noteq> i" using ni by blast
    then show "j < length (sslot_arr sess1)
               \<and> tx_msgbuf (sslot_arr sess1 ! j) = None
               \<and> session (sslot_arr sess1 ! j) = Some sn
               \<and> unat (index (sslot_arr sess1 ! j)) = j"
      using Cons.prems(7) j by (simp add: same p1(5))
  qed
  have l1: "length idxs \<le> length (enq_req_backlog sess1)"
    using Cons.prems(8) bl p1(4) by simp
  from Cons.IH [OF g1 p1(1) p1(2) p1(3) b1 d1 s1 l1]
  obtain r' sess' where
    ra: "release_all K r1 (map (Pair sn) idxs) = Inr r'"
    and g': "get_session r' sn = Some sess'"
    and bl': "enq_req_backlog sess' = drop (length idxs) (enq_req_backlog sess1)"
    and fr': "sslot_free_vec sess' = []"
    and ac': "active_rpcs r' = active_rpcs r1 @ map (Pair sn) idxs"
    and ln': "length (sslot_arr sess') = length (sslot_arr sess1)"
    and un': "\<forall>j. j \<notin> set idxs \<longrightarrow> sslot_arr sess' ! j = sslot_arr sess1 ! j"
    and is': "\<forall>j < length idxs.
                 tx_msgbuf (sslot_arr sess' ! (idxs ! j)) = a_req_msgbuf (enq_req_backlog sess1 ! j)
                 \<and> resp_msgbuf (sslot_arr sess' ! (idxs ! j)) = a_resp_msgbuf (enq_req_backlog sess1 ! j)
                 \<and> cont_func (sslot_arr sess' ! (idxs ! j)) = a_cont_func (enq_req_backlog sess1 ! j)
                 \<and> tag (sslot_arr sess' ! (idxs ! j)) = a_tag (enq_req_backlog sess1 ! j)"
    by blast
  have at_i: "sslot_arr sess' ! i = sslot_arr sess1 ! i" using un' ni by blast
  have slot_i: "tx_msgbuf (sslot_arr sess1 ! i) = a_req_msgbuf a"
    "resp_msgbuf (sslot_arr sess1 ! i) = a_resp_msgbuf a"
    "cont_func (sslot_arr sess1 ! i) = a_cont_func a"
    "tag (sslot_arr sess1 ! i) = a_tag a"
    using i(1) by (simp_all add: sess1_def)
  have c1: "release_all K r (map (Pair sn) (i # idxs)) = Inr r'" using rr ra by simp
  have c3: "enq_req_backlog sess' = drop (length (i # idxs)) (enq_req_backlog sess)"
    using bl' p1(4) bl by simp
  have c5: "active_rpcs r' = active_rpcs r @ map (Pair sn) (i # idxs)"
    using ac' by (simp add: r1_def add_to_active_rpc_list_def)
  have c6: "length (sslot_arr sess') = length (sslot_arr sess)" using ln' p1(5) by simp
  have c7: "\<forall>j. j \<notin> set (i # idxs) \<longrightarrow> sslot_arr sess' ! j = sslot_arr sess ! j"
    using un' same by simp
  have c8: "\<forall>j < length (i # idxs).
                 tx_msgbuf (sslot_arr sess' ! ((i # idxs) ! j)) = a_req_msgbuf (enq_req_backlog sess ! j)
                 \<and> resp_msgbuf (sslot_arr sess' ! ((i # idxs) ! j)) = a_resp_msgbuf (enq_req_backlog sess ! j)
                 \<and> cont_func (sslot_arr sess' ! ((i # idxs) ! j)) = a_cont_func (enq_req_backlog sess ! j)
                 \<and> tag (sslot_arr sess' ! ((i # idxs) ! j)) = a_tag (enq_req_backlog sess ! j)"
  proof (intro allI impI)
    fix j assume j: "j < length (i # idxs)"
    show "tx_msgbuf (sslot_arr sess' ! ((i # idxs) ! j)) = a_req_msgbuf (enq_req_backlog sess ! j)
                 \<and> resp_msgbuf (sslot_arr sess' ! ((i # idxs) ! j)) = a_resp_msgbuf (enq_req_backlog sess ! j)
                 \<and> cont_func (sslot_arr sess' ! ((i # idxs) ! j)) = a_cont_func (enq_req_backlog sess ! j)
                 \<and> tag (sslot_arr sess' ! ((i # idxs) ! j)) = a_tag (enq_req_backlog sess ! j)"
    proof (cases j)
      case 0
      then show ?thesis using at_i slot_i bl by simp
    next
      case (Suc k)
      then have "k < length idxs" using j by simp
      then show ?thesis using is' Suc bl p1(4) by simp
    qed
  qed
  show ?case using c1 g' c3 fr' c5 c6 c7 c8 by blast
qed

subsection \<open>Duplicate connect requests (claim C6)\<close>

text \<open>The handler sends no session management packet, whatever it is given.\<close>

lemma handle_session_connect_req_sends_nothing:
  "handle_session_connect_req t h f sv p = Inr (s, sent) \<Longrightarrow> sent = []"
  by (auto simp: handle_session_connect_req_def
      split: option.splits if_splits sum.splits bool.splits)

text \<open>
  Claim C6 says that a duplicate connect request makes the server send its response
  again and allocate no session. The handler does otherwise. For a connect request from
  the client the server already has a session with (same hostname, same \<open>app_tid\<close>),
  \<open>strcmp\<close> is 0, the loop's condition is false, and the handler creates a new session and
  sends nothing. For a request from another host with that \<open>app_tid\<close> the condition is true:
  the handler takes it for the duplicate and returns, again without a response.
\<close>

theorem handle_session_connect_req_duplicate:
  "handle_session_connect_req 1 ''nexus-host'' port_managed [session_a] (Some connect_req_a)
     = Inr (Some \<lparr>session_client = client_a, session_server = server_x\<rparr>, [])
   \<and> handle_session_connect_req 1 ''nexus-host'' port_managed [session_a] (Some connect_req_b)
     = Inr (None, [])"
  by (simp add: handle_session_connect_req_def session_a_def connect_req_a_def connect_req_b_def
      client_a_def client_b_def server_x_def)

subsection \<open>Wheel insertion\<close>

text \<open>
  What one call of \<open>enqueue_wheel_req_st\<close> or \<open>enqueue_wheel_rfr_st\<close> does, for a slot whose
  \<open>in_wheel\<close> array has \<open>kSessionCredits\<close> entries: it sets \<open>in_wheel[pkt_num mod K]\<close>, adds 1
  to \<open>wheel_count\<close>, adds the one entry \<open>(sslot, pkt_num)\<close> to the wheel and leaves the
  other bits alone.
\<close>

lemma mod_K_lt:
  assumes "K \<noteq> (0 :: size_t)"
  shows "unat (n mod K) < unat K"
  using assms by (simp add: unat_mod unat_gt_0 [symmetric] word_greater_zero_iff unat_eq_zero)

lemma enqueue_wheel_req_st_effect:
  assumes e: "enqueue_wheel_req_st K gps cc ref_tsc wheel sess p sslot n = Inr (wheel', sess', sslot')"
    and K: "K \<noteq> 0" and len: "length (in_wheel sslot) = unat K"
  shows "in_wheel sslot' ! unat (n mod K)"
    and "wheel_count sslot' = wheel_count sslot + 1"
    and "\<exists>t. wheel' = wheel @ [(\<lparr>we_sslot = p, we_pkt_num = n\<rparr>, t)]"
    and "\<forall>j. j \<noteq> unat (n mod K) \<longrightarrow> in_wheel sslot' ! j = in_wheel sslot ! j"
  using e mod_K_lt [OF K, of n] len
  by (auto simp: enqueue_wheel_req_st_def wheel_insert_def Let_def
      split: option.splits prod.splits)

lemma enqueue_wheel_rfr_st_effect:
  assumes e: "enqueue_wheel_rfr_st K gps cc ref_tsc wheel sess p sslot n = Inr (wheel', sess', sslot')"
    and K: "K \<noteq> 0" and len: "length (in_wheel sslot) = unat K"
  shows "in_wheel sslot' ! unat (n mod K)"
    and "wheel_count sslot' = wheel_count sslot + 1"
    and "\<exists>t. wheel' = wheel @ [(\<lparr>we_sslot = p, we_pkt_num = n\<rparr>, t)]"
    and "\<forall>j. j \<noteq> unat (n mod K) \<longrightarrow> in_wheel sslot' ! j = in_wheel sslot ! j"
  using e mod_K_lt [OF K, of n] len
  by (auto simp: enqueue_wheel_rfr_st_def wheel_insert_def Let_def
      split: option.splits prod.splits)

text \<open>
  The two functions do not look at the bit they set. If every bit of the slot is set iff
  exactly one entry of its residue is pending, then after inserting \<open>pkt_num\<close> this holds
  again iff no entry of the residue \<open>pkt_num mod K\<close> was pending before. That no such
  entry is pending is up to the callers (\<open>kick_req_st\<close>, \<open>kick_rfr_st\<close>), which are not
  among the sources.
\<close>

lemma pending_for_append:
  "pending_for K (wheel @ [(\<lparr>we_sslot = p, we_pkt_num = n\<rparr>, t)]) p i
     = pending_for K wheel p i @ (if unat (n mod K) = i then [(\<lparr>we_sslot = p, we_pkt_num = n\<rparr>, t)] else [])"
  by (simp add: pending_for_def)

lemma enqueue_wheel_req_st_exact:
  assumes e: "enqueue_wheel_req_st K gps cc ref_tsc wheel sess p sslot n = Inr (wheel', sess', sslot')"
    and K: "K \<noteq> 0" and len: "length (in_wheel sslot) = unat K"
    and inv: "in_wheel_exact K wheel p sslot"
  shows "in_wheel_exact K wheel' p sslot' \<longleftrightarrow> pending_for K wheel p (unat (n mod K)) = []"
proof -
  note eff = enqueue_wheel_req_st_effect [OF e K len]
  from eff(3) obtain t where w: "wheel' = wheel @ [(\<lparr>we_sslot = p, we_pkt_num = n\<rparr>, t)]" ..
  let ?k = "unat (n mod K)"
  have k: "?k < unat K" using K by (rule mod_K_lt)
  have old: "in_wheel sslot ! i = (length (pending_for K wheel p i) = 1)" if "i < unat K" for i
    using inv that by (simp add: in_wheel_exact_def list_all_iff)
  have other: "in_wheel sslot' ! i = (length (pending_for K wheel' p i) = 1)"
    if "i < unat K" "i \<noteq> ?k" for i
    using that eff(4) old [of i] by (simp add: w pending_for_append)
  have at: "(in_wheel sslot' ! ?k = (length (pending_for K wheel' p ?k) = 1))
      \<longleftrightarrow> pending_for K wheel p ?k = []"
    using eff(1) by (auto simp: w pending_for_append)
  show ?thesis
  proof
    assume "in_wheel_exact K wheel' p sslot'"
    then have "in_wheel sslot' ! ?k = (length (pending_for K wheel' p ?k) = 1)"
      using k by (simp add: in_wheel_exact_def list_all_iff)
    then show "pending_for K wheel p ?k = []" using at by blast
  next
    assume "pending_for K wheel p ?k = []"
    then have atk: "in_wheel sslot' ! ?k = (length (pending_for K wheel' p ?k) = 1)"
      using at by blast
    have "in_wheel sslot' ! i = (length (pending_for K wheel' p i) = 1)" if "i < unat K" for i
    proof (cases "i = ?k")
      case True
      then show ?thesis using atk by simp
    next
      case False
      then show ?thesis using that by (rule other [of i, rotated])
    qed
    then show "in_wheel_exact K wheel' p sslot'"
      by (simp add: in_wheel_exact_def list_all_iff)
  qed
qed

end
